theory Spec2Isabelle
  imports Complex_Main
begin

section \<open>Python values of the conversion kernel\<close>

text \<open>
  The classes the kernel names: the keys of its conversion maps, the values of
  \<open>return_type\<close> and the results of \<open>type(element)\<close>. \<open>TyObject\<close> stands for any other
  Python class (pandas sees it as the object dtype), \<open>TyVoid\<close> for a storage type that no
  pandas predicate recognises, and \<open>TyInstance\<close> for an object that is not a class, found
  where a class is expected.
\<close>

datatype pytype =
  TyInt | TyFloat | TyComplex | TyBool | TyStr
  | TyDatetime | TyTimestamp | TyTimedelta | TyPdTimedelta
  | TyObject | TyVoid | TyInstance

text \<open>
  A Python float is a finite number, an infinity or \<open>nan\<close>. The finite floats are exact
  reals: the rules below subtract a float from its own rounded or truncated value, which
  floating-point arithmetic does without rounding error.
\<close>

datatype pyfloat = Fin real | PInf | NInf | NaN

text \<open>
  Scalars. A complex number is its real and its imaginary part. A datetime is its class,
  its wall-clock seconds since 1970-01-01T00:00 and its UTC offset in seconds (\<open>None\<close> for
  a naive datetime); a timedelta is its class and its total seconds; the seconds are exact
  reals, and the range of each class is checked where a value of the class is made
  (\<open>in_range\<close> below). \<open>VObject\<close> and \<open>VVoid\<close> are opaque hashable objects, \<open>VType\<close> is a
  class used as a value.
\<close>

datatype "value" =
  VNone | VNA | VNaT
  | VInt int | VFloat pyfloat | VComplex pyfloat pyfloat | VBool bool | VStr string
  | VDatetime pytype real "real option"
  | VTimedelta pytype real
  | VObject nat
  | VVoid nat
  | VType pytype

text \<open>\<open>np.nan\<close>, a finite float, and a complex number with finite parts.\<close>

abbreviation VNaN :: "value" where
  "VNaN \<equiv> VFloat NaN"

abbreviation VFinite :: "real \<Rightarrow> value" where
  "VFinite x \<equiv> VFloat (Fin x)"


datatype error =
  NameError string
  | KeyError
  | ValueError string "value"
  | TypeError string
  | AttributeError string
  | OverflowError

type_synonym result = "error + value"

definition bnd :: "error + 'a \<Rightarrow> ('a \<Rightarrow> error + 'b) \<Rightarrow> error + 'b" where
  "bnd m f = (case m of Inl e \<Rightarrow> Inl e | Inr x \<Rightarrow> f x)"

text \<open>
  \<open>pd.isnull\<close> on a scalar: \<open>None\<close>, \<open>pd.NA\<close>, \<open>pd.NaT\<close>, the float \<open>nan\<close> and a complex
  number with a \<open>nan\<close> part.
\<close>

fun isnull :: "value \<Rightarrow> bool" where
  "isnull VNone = True"
| "isnull VNA = True"
| "isnull VNaT = True"
| "isnull (VFloat f) = (f = NaN)"
| "isnull (VComplex a b) = (a = NaN \<or> b = NaN)"
| "isnull _ = False"

subsection \<open>Numbers\<close>

text \<open>\<open>np.round\<close> rounds half to even; \<open>int(x)\<close> truncates towards zero.\<close>

definition round_half_even :: "real \<Rightarrow> int" where
  "round_half_even x =
     (let f = \<lfloor>x\<rfloor>; d = x - of_int f
      in if d < 1 / 2 then f else if 1 / 2 < d then f + 1
         else if even f then f else f + 1)"

definition py_trunc :: "real \<Rightarrow> int" where
  "py_trunc x = (if 0 \<le> x then \<lfloor>x\<rfloor> else \<lceil>x\<rceil>)"

text \<open>
  The numeric tower: \<open>bool\<close> is a subclass of \<open>int\<close>, and a real number is a complex
  number with imaginary part 0.
\<close>

fun as_float :: "value \<Rightarrow> pyfloat option" where
  "as_float (VBool b) = Some (Fin (if b then 1 else 0))"
| "as_float (VInt n) = Some (Fin (of_int n))"
| "as_float (VFloat f) = Some f"
| "as_float _ = None"

fun as_parts :: "value \<Rightarrow> (pyfloat \<times> pyfloat) option" where
  "as_parts (VComplex a b) = Some (a, b)"
| "as_parts v = map_option (\<lambda>f. (f, Fin 0)) (as_float v)"

text \<open>\<open>x.real\<close> and \<open>x.imag\<close>.\<close>

fun py_real :: "value \<Rightarrow> result" where
  "py_real (VComplex a b) = Inr (VFloat a)"
| "py_real (VFloat f) = Inr (VFloat f)"
| "py_real (VInt n) = Inr (VInt n)"
| "py_real (VBool b) = Inr (VInt (if b then 1 else 0))"
| "py_real _ = Inl (AttributeError ''real'')"

fun py_imag :: "value \<Rightarrow> error + pyfloat" where
  "py_imag (VComplex a b) = Inr b"
| "py_imag (VFloat f) = Inr (Fin 0)"
| "py_imag (VInt n) = Inr (Fin 0)"
| "py_imag (VBool b) = Inr (Fin 0)"
| "py_imag _ = Inl (AttributeError ''imag'')"

text \<open>
  \<open>np.round(x)\<close> on a real scalar: a float stays a float (an infinity and \<open>nan\<close> stay as
  they are), an integer stays as it is.
\<close>

fun np_round :: "value \<Rightarrow> result" where
  "np_round (VFloat (Fin x)) = Inr (VFloat (Fin (of_int (round_half_even x))))"
| "np_round (VFloat f) = Inr (VFloat f)"
| "np_round (VInt n) = Inr (VInt n)"
| "np_round _ = Inl (TypeError ''round'')"

text \<open>
  \<open>abs(x) < ftol\<close> for a float \<open>x\<close> and a finite tolerance: the modulus of an infinity is
  infinite, and no comparison with \<open>nan\<close> holds.
\<close>

fun abs_lt :: "pyfloat \<Rightarrow> real \<Rightarrow> bool" where
  "abs_lt (Fin x) ftol = (\<bar>x\<bar> < ftol)"
| "abs_lt _ ftol = False"

text \<open>
  \<open>abs(a - b) < ftol\<close>: subtraction in the numeric tower, then the modulus. When a part of
  \<open>a\<close> or of \<open>b\<close> is not finite, a part of the difference is an infinity or \<open>nan\<close>, so is the
  modulus, and the comparison with the finite tolerance is false.
\<close>

definition abs_diff_lt :: "value \<Rightarrow> value \<Rightarrow> real \<Rightarrow> error + bool" where
  "abs_diff_lt a b ftol =
     (case (as_parts a, as_parts b) of
        (Some (Fin x, Fin y), Some (Fin u, Fin v)) \<Rightarrow> Inr (cmod (Complex (x - u) (y - v)) < ftol)
      | (Some p, Some q) \<Rightarrow> Inr False
      | _ \<Rightarrow> Inl (TypeError ''unsupported operand type(s) for -''))"

text \<open>
  \<open>a == b\<close>: numbers compare by value across the tower (\<open>nan\<close> is equal to nothing),
  everything else structurally.
\<close>

fun float_eq :: "pyfloat \<Rightarrow> pyfloat \<Rightarrow> bool" where
  "float_eq (Fin x) (Fin y) = (x = y)"
| "float_eq PInf PInf = True"
| "float_eq NInf NInf = True"
| "float_eq _ _ = False"

definition py_eq :: "value \<Rightarrow> value \<Rightarrow> bool" where
  "py_eq a b =
     (case (as_parts a, as_parts b) of
        (Some (x, y), Some (u, v)) \<Rightarrow> float_eq x u \<and> float_eq y v
      | _ \<Rightarrow> a = b)"

text \<open>Truthiness of a built-in value (\<open>bool(x)\<close>).\<close>

fun truthy :: "value \<Rightarrow> bool" where
  "truthy (VBool b) = b"
| "truthy (VInt n) = (n \<noteq> 0)"
| "truthy (VFloat f) = (f \<noteq> Fin 0)"
| "truthy (VComplex a b) = (a \<noteq> Fin 0 \<or> b \<noteq> Fin 0)"
| "truthy (VStr s) = (s \<noteq> [])"
| "truthy (VTimedelta c s) = (s \<noteq> 0)"
| "truthy VNone = False"
| "truthy _ = True"

subsection \<open>The libraries\<close>

text \<open>
  The answers of the pandas dtype predicates that \<open>parse_dtype\<close> asks, in its order; the
  two membership tests \<open>dtype in (datetime, pd.Timestamp)\<close> and
  \<open>dtype in (timedelta, pd.Timedelta)\<close> are part of the datetime and timedelta answers.
\<close>

record dtype_tests =
  is_integer_dtype :: bool
  is_float_dtype :: bool
  is_complex_dtype :: bool
  is_bool_dtype :: bool
  is_datetime_dtype :: bool
  is_timedelta_dtype :: bool
  is_object_dtype :: bool
  is_string_dtype :: bool

text \<open>
  What the kernel takes from Python and pandas and does not define itself is a parameter:
  the literal parsers \<open>int(s)\<close>, \<open>float(s)\<close>, \<open>complex(s)\<close>, \<open>pd.to_timedelta(s)\<close> and
  \<open>pd.to_datetime(s)\<close>, the renderings \<open>str(x)\<close>, \<open>x.isoformat()\<close> and
  \<open>x.strftime(format)\<close>, the constructor calls on values that are not built-in scalars,
  the UTC offset of the local zone (used by \<open>timestamp()\<close> of a naive datetime), the
  answers of the dtype predicates on an argument that is a value instead of a type, and
  the exception that a datetime or timedelta class raises for a number of seconds outside
  its range (its class depends on the platform and on the version of pandas).

  apply.py imports \<open>parse_dtype\<close>, \<open>parse_string\<close> and \<open>to_utc\<close> from
  \<open>pdtypes.util.parse\<close>, while the sources hold parse.py. The rules from strings call
  \<open>parse_string(element, format=format)\<close>, which the \<open>parse_string\<close> of parse.py, with its
  one parameter, does not accept: the function they import is not among the sources and
  is the parameter \<open>imported_parse_string\<close>.
\<close>

record pylib =
  int_of_str :: "string \<Rightarrow> result"
  float_of_str :: "string \<Rightarrow> result"
  complex_of_str :: "string \<Rightarrow> result"
  pd_to_timedelta :: "string \<Rightarrow> result"
  pd_to_datetime :: "string \<Rightarrow> result"
  str_of :: "value \<Rightarrow> string"
  isoformat_of :: "value \<Rightarrow> string"
  strftime_of :: "value \<Rightarrow> string \<Rightarrow> string"
  call_other :: "pytype \<Rightarrow> value \<Rightarrow> result"
  local_utcoffset :: real
  tests_of_value :: "value \<Rightarrow> dtype_tests"
  range_error :: "pytype \<Rightarrow> real \<Rightarrow> error"
  imported_parse_string :: "value \<Rightarrow> string option \<Rightarrow> result"

subsection \<open>Calling a class\<close>

text \<open>
  \<open>int(x)\<close> of an infinite float raises \<open>OverflowError\<close>, of \<open>nan\<close> \<open>ValueError\<close>.
  \<open>float(n)\<close> and \<open>complex(n)\<close> of an integer raise \<open>OverflowError\<close> when \<open>n\<close> rounds to a
  magnitude beyond the largest float, that is from \<open>2^1024 - 2^970\<close> on.
\<close>

definition float_overflows :: "int \<Rightarrow> bool" where
  "float_overflows n = (2 ^ 1024 - 2 ^ 970 \<le> \<bar>n\<bar>)"

fun py_int :: "pylib \<Rightarrow> value \<Rightarrow> result" where
  "py_int L (VInt n) = Inr (VInt n)"
| "py_int L (VBool b) = Inr (VInt (if b then 1 else 0))"
| "py_int L (VFloat (Fin x)) = Inr (VInt (py_trunc x))"
| "py_int L (VFloat NaN) = Inl (ValueError ''cannot convert float NaN to integer'' VNaN)"
| "py_int L (VFloat f) = Inl OverflowError"
| "py_int L (VStr s) = int_of_str L s"
| "py_int L (VComplex a b) = Inl (TypeError ''int() argument'')"
| "py_int L v = call_other L TyInt v"

fun py_float :: "pylib \<Rightarrow> value \<Rightarrow> result" where
  "py_float L (VInt n) =
     (if float_overflows n then Inl OverflowError else Inr (VFloat (Fin (of_int n))))"
| "py_float L (VBool b) = Inr (VFloat (Fin (if b then 1 else 0)))"
| "py_float L (VFloat f) = Inr (VFloat f)"
| "py_float L (VStr s) = float_of_str L s"
| "py_float L (VComplex a b) = Inl (TypeError ''float() argument'')"
| "py_float L v = call_other L TyFloat v"

fun py_complex :: "pylib \<Rightarrow> value \<Rightarrow> result" where
  "py_complex L (VComplex a b) = Inr (VComplex a b)"
| "py_complex L (VInt n) =
     (if float_overflows n then Inl OverflowError
      else Inr (VComplex (Fin (of_int n)) (Fin 0)))"
| "py_complex L (VBool b) = Inr (VComplex (Fin (if b then 1 else 0)) (Fin 0))"
| "py_complex L (VFloat f) = Inr (VComplex f (Fin 0))"
| "py_complex L (VStr s) = complex_of_str L s"
| "py_complex L v = call_other L TyComplex v"

fun py_bool :: "pylib \<Rightarrow> value \<Rightarrow> result" where
  "py_bool L (VObject k) = call_other L TyBool (VObject k)"
| "py_bool L (VVoid k) = call_other L TyBool (VVoid k)"
| "py_bool L VNA = Inl (TypeError ''boolean value of NA is ambiguous'')"
| "py_bool L v = Inr (VBool (truthy v))"

text \<open>\<open>return_type(x)\<close>: the class \<open>return_type\<close> called on one positional argument.\<close>

fun construct :: "pylib \<Rightarrow> pytype \<Rightarrow> value \<Rightarrow> result" where
  "construct L TyInt v = py_int L v"
| "construct L TyFloat v = py_float L v"
| "construct L TyComplex v = py_complex L v"
| "construct L TyBool v = py_bool L v"
| "construct L TyStr v = Inr (VStr (str_of L v))"
| "construct L TyInstance v = Inl (TypeError ''object is not callable'')"
| "construct L ty v = call_other L ty v"

text \<open>
  The seconds that each class holds. \<open>datetime\<close> spans the years 1 to 9999, \<open>timedelta\<close>
  up to 999999999 days either way, and the two pandas classes hold a signed 64-bit count
  of nanoseconds whose least value stands for \<open>NaT\<close>.
\<close>

fun in_range :: "pytype \<Rightarrow> real \<Rightarrow> bool" where
  "in_range TyDatetime s = (- 62135596800 \<le> s \<and> s < 253402300800)"
| "in_range TyTimedelta s = (- 86399999913600 \<le> s \<and> s < 86400000000000)"
| "in_range TyTimestamp s = (\<bar>s\<bar> * 10 ^ 9 \<le> 2 ^ 63 - 1)"
| "in_range TyPdTimedelta s = (\<bar>s\<bar> * 10 ^ 9 \<le> 2 ^ 63 - 1)"
| "in_range _ s = False"

text \<open>
  A number of seconds given to a datetime or timedelta class: an infinity raises
  \<open>OverflowError\<close>, \<open>nan\<close> raises \<open>ValueError\<close>, a number outside the range of the class
  raises the exception of the library, and one inside is accepted.
\<close>

definition seconds_for :: "pylib \<Rightarrow> pytype \<Rightarrow> value \<Rightarrow> error + real" where
  "seconds_for L cls t =
     (case as_float t of
        None \<Rightarrow> Inl (TypeError ''a number of seconds is required'')
      | Some NaN \<Rightarrow> Inl (ValueError ''cannot convert float NaN to integer'' t)
      | Some (Fin s) \<Rightarrow> if in_range cls s then Inr s else Inl (range_error L cls s)
      | Some _ \<Rightarrow> Inl OverflowError)"

text \<open>
  \<open>return_type.fromtimestamp(t, tz=timezone.utc)\<close> is a class method of the two datetime
  classes; \<open>return_type(seconds=s)\<close> is accepted by the two timedelta classes.
\<close>

definition fromtimestamp :: "pylib \<Rightarrow> pytype \<Rightarrow> value \<Rightarrow> result" where
  "fromtimestamp L cls t =
     (if cls = TyTimestamp \<or> cls = TyDatetime
      then bnd (seconds_for L cls t) (\<lambda>s. Inr (VDatetime cls s (Some 0)))
      else Inl (AttributeError ''fromtimestamp''))"

definition of_seconds :: "pylib \<Rightarrow> pytype \<Rightarrow> value \<Rightarrow> result" where
  "of_seconds L cls s =
     (if cls = TyPdTimedelta \<or> cls = TyTimedelta
      then bnd (seconds_for L cls s) (\<lambda>x. Inr (VTimedelta cls x))
      else Inl (TypeError ''unexpected keyword argument seconds''))"

text \<open>
  Modelled from the spec: \<open>to_utc\<close>, which apply.py imports from \<open>pdtypes.util.parse\<close>, is
  not among the sources. The spec anchors every datetime to a single reference offset and
  treats all datetimes as expressed in the canonical zone before arithmetic: an aware
  datetime is moved to UTC (same instant), a naive one is read as UTC.
\<close>

fun to_utc :: "value \<Rightarrow> result" where
  "to_utc (VDatetime cls w None) = Inr (VDatetime cls w (Some 0))"
| "to_utc (VDatetime cls w (Some k)) = Inr (VDatetime cls (w - k) (Some 0))"
| "to_utc _ = Inl (AttributeError ''tzinfo'')"

text \<open>\<open>x.timestamp()\<close> and \<open>x.total_seconds()\<close>.\<close>

fun timestamp :: "pylib \<Rightarrow> value \<Rightarrow> result" where
  "timestamp L (VDatetime cls w (Some k)) = Inr (VFinite (w - k))"
| "timestamp L (VDatetime cls w None) = Inr (VFinite (w - local_utcoffset L))"
| "timestamp L _ = Inl (AttributeError ''timestamp'')"

fun total_seconds :: "value \<Rightarrow> result" where
  "total_seconds (VTimedelta cls s) = Inr (VFinite s)"
| "total_seconds _ = Inl (AttributeError ''total_seconds'')"

text \<open>\<open>a or b\<close> with a boolean \<open>a\<close>: \<open>b\<close> is evaluated only when \<open>a\<close> is false.\<close>

definition por :: "bool \<Rightarrow> error + bool \<Rightarrow> error + bool" where
  "por a m = (if a then Inr True else m)"

section \<open>The conversion rules of apply.py\<close>

text \<open>
  Each rule is the Python function of the same name, with its parameters in the order of
  its \<^verbatim>\<open>def\<close>. The message of a \<open>ValueError\<close> is kept without the \<open>error_trace()\<close>
  prefix, next to the element whose \<open>repr\<close> the message ends with.
\<close>

subsection \<open>From integers\<close>

definition integer_to_float :: "pylib \<Rightarrow> value \<Rightarrow> pytype \<Rightarrow> result" where
  "integer_to_float L element return_type =
     (if isnull element then Inr VNaN else construct L return_type element)"

definition integer_to_complex :: "pylib \<Rightarrow> value \<Rightarrow> pytype \<Rightarrow> result" where
  "integer_to_complex L element return_type =
     (if isnull element then Inr VNaN else construct L return_type element)"

definition integer_to_string :: "pylib \<Rightarrow> value \<Rightarrow> pytype \<Rightarrow> result" where
  "integer_to_string L element return_type =
     (if isnull element then Inr VNone else construct L return_type element)"

definition integer_to_boolean :: "pylib \<Rightarrow> value \<Rightarrow> bool \<Rightarrow> pytype \<Rightarrow> result" where
  "integer_to_boolean L element force return_type =
     (if isnull element then Inr VNA else
      bnd (construct L return_type element) (\<lambda>result.
      if py_eq result element \<or> force then Inr result
      else Inl (ValueError ''could not convert int to bool without losing information''
                  element)))"

definition integer_to_datetime :: "pylib \<Rightarrow> value \<Rightarrow> pytype \<Rightarrow> result" where
  "integer_to_datetime L element return_type =
     (if isnull element then Inr VNaT else fromtimestamp L return_type element)"

definition integer_to_timedelta :: "pylib \<Rightarrow> value \<Rightarrow> pytype \<Rightarrow> result" where
  "integer_to_timedelta L element return_type =
     (if isnull element then Inr VNaT
      else bnd (py_int L element) (of_seconds L return_type))"

subsection \<open>From floats\<close>

definition float_to_integer ::
  "pylib \<Rightarrow> value \<Rightarrow> bool \<Rightarrow> bool \<Rightarrow> real \<Rightarrow> pytype \<Rightarrow> result" where
  "float_to_integer L element force rnd ftol return_type =
     (if isnull element then Inr VNaN else
      bnd (py_real element) (\<lambda>re.
      bnd (np_round re) (\<lambda>rounded.
      bnd (por rnd (abs_diff_lt rounded element ftol)) (\<lambda>near.
      bnd (if near then construct L return_type rounded
           else bnd (py_real element) (construct L return_type)) (\<lambda>result.
      bnd (por force (abs_diff_lt result element ftol)) (\<lambda>ok.
      if ok then Inr result
      else Inl (ValueError ''could not convert float to int without losing information''
                  element)))))))"

definition float_to_complex :: "pylib \<Rightarrow> value \<Rightarrow> pytype \<Rightarrow> result" where
  "float_to_complex L element return_type =
     (if isnull element then Inr VNaN else construct L return_type element)"

definition float_to_string :: "pylib \<Rightarrow> value \<Rightarrow> pytype \<Rightarrow> result" where
  "float_to_string L element return_type =
     (if isnull element then Inr VNone else construct L return_type element)"

definition float_to_boolean ::
  "pylib \<Rightarrow> value \<Rightarrow> bool \<Rightarrow> real \<Rightarrow> pytype \<Rightarrow> result" where
  "float_to_boolean L element force ftol return_type =
     (if isnull element then Inr VNA else
      bnd (py_real element) (\<lambda>re.
      bnd (np_round re) (\<lambda>rounded.
      bnd (abs_diff_lt rounded element ftol) (\<lambda>near.
      bnd (if near then construct L return_type rounded
           else bnd (py_real element) (construct L return_type)) (\<lambda>result.
      bnd (por force (abs_diff_lt result element ftol)) (\<lambda>ok.
      if ok then Inr result
      else Inl (ValueError ''could not convert float to bool without losing information''
                  element)))))))"

definition float_to_datetime :: "pylib \<Rightarrow> value \<Rightarrow> pytype \<Rightarrow> result" where
  "float_to_datetime L element return_type =
     (if isnull element then Inr VNaT
      else bnd (py_float L element) (fromtimestamp L return_type))"

definition float_to_timedelta :: "pylib \<Rightarrow> value \<Rightarrow> pytype \<Rightarrow> result" where
  "float_to_timedelta L element return_type =
     (if isnull element then Inr VNaT
      else bnd (py_float L element) (of_seconds L return_type))"

subsection \<open>From complex numbers\<close>

definition complex_to_integer ::
  "pylib \<Rightarrow> value \<Rightarrow> bool \<Rightarrow> bool \<Rightarrow> real \<Rightarrow> pytype \<Rightarrow> result" where
  "complex_to_integer L element rnd force ftol return_type =
     (if isnull element then Inr VNaN else
      bnd (py_real element) (\<lambda>re.
      bnd (np_round re) (\<lambda>rounded.
      bnd (por rnd (abs_diff_lt rounded element ftol)) (\<lambda>near.
      bnd (if near then construct L return_type rounded
           else bnd (py_real element) (construct L return_type)) (\<lambda>result.
      bnd (por force (abs_diff_lt result element ftol)) (\<lambda>ok.
      if ok then Inr result
      else Inl (ValueError ''could not convert complex to int without losing information''
                  element)))))))"

definition complex_to_float ::
  "pylib \<Rightarrow> value \<Rightarrow> bool \<Rightarrow> real \<Rightarrow> pytype \<Rightarrow> result" where
  "complex_to_float L element force ftol return_type =
     (if isnull element then Inr VNaN else
      bnd (por force (bnd (py_imag element) (\<lambda>im. Inr (abs_lt im ftol)))) (\<lambda>ok.
      if ok then bnd (py_real element) (construct L return_type)
      else Inl (ValueError ''could not convert complex to float without losing information''
                  element)))"

definition complex_to_string :: "pylib \<Rightarrow> value \<Rightarrow> pytype \<Rightarrow> result" where
  "complex_to_string L element return_type =
     (if isnull element then Inr VNA else construct L return_type element)"

definition complex_to_boolean ::
  "pylib \<Rightarrow> value \<Rightarrow> bool \<Rightarrow> real \<Rightarrow> pytype \<Rightarrow> result" where
  "complex_to_boolean L element force ftol return_type =
     (if isnull element then Inr VNA else
      bnd (py_real element) (\<lambda>re.
      bnd (np_round re) (\<lambda>rounded.
      bnd (abs_diff_lt rounded element ftol) (\<lambda>near.
      bnd (if near then construct L return_type rounded
           else bnd (py_real element) (construct L return_type)) (\<lambda>result.
      bnd (por force (abs_diff_lt result element ftol)) (\<lambda>ok.
      if ok then Inr result
      else Inl (ValueError ''could not convert complex to bool without losing information''
                  element)))))))"

definition complex_to_datetime ::
  "pylib \<Rightarrow> value \<Rightarrow> bool \<Rightarrow> real \<Rightarrow> pytype \<Rightarrow> result" where
  "complex_to_datetime L element force ftol return_type =
     (if isnull element then Inr VNaT else
      bnd (por force (bnd (py_imag element) (\<lambda>im. Inr (abs_lt im ftol)))) (\<lambda>ok.
      if ok then bnd (bnd (py_real element) (py_float L)) (fromtimestamp L return_type)
      else Inl (ValueError
                  ''could not convert complex to datetime without losing information''
                  element)))"

definition complex_to_timedelta ::
  "pylib \<Rightarrow> value \<Rightarrow> bool \<Rightarrow> real \<Rightarrow> pytype \<Rightarrow> result" where
  "complex_to_timedelta L element force ftol return_type =
     (if isnull element then Inr VNaT else
      bnd (por force (bnd (py_imag element) (\<lambda>im. Inr (abs_lt im ftol)))) (\<lambda>ok.
      if ok then bnd (bnd (py_real element) (py_float L)) (of_seconds L return_type)
      else Inl (ValueError
                  ''could not convert complex to timedelta without losing information''
                  element)))"

subsection \<open>From booleans\<close>

definition boolean_to_integer :: "pylib \<Rightarrow> value \<Rightarrow> pytype \<Rightarrow> result" where
  "boolean_to_integer L element return_type =
     (if isnull element then Inr VNaN else construct L return_type element)"

definition boolean_to_float :: "pylib \<Rightarrow> value \<Rightarrow> pytype \<Rightarrow> result" where
  "boolean_to_float L element return_type =
     (if isnull element then Inr VNaN else construct L return_type element)"

definition boolean_to_complex :: "pylib \<Rightarrow> value \<Rightarrow> pytype \<Rightarrow> result" where
  "boolean_to_complex L element return_type =
     (if isnull element then Inr VNaN else construct L return_type element)"

definition boolean_to_string :: "pylib \<Rightarrow> value \<Rightarrow> pytype \<Rightarrow> result" where
  "boolean_to_string L element return_type =
     (if isnull element then Inr VNA else construct L return_type element)"

definition boolean_to_datetime :: "pylib \<Rightarrow> value \<Rightarrow> pytype \<Rightarrow> result" where
  "boolean_to_datetime L element return_type =
     (if isnull element then Inr VNaT
      else bnd (py_float L element) (fromtimestamp L return_type))"

definition boolean_to_timedelta :: "pylib \<Rightarrow> value \<Rightarrow> pytype \<Rightarrow> result" where
  "boolean_to_timedelta L element return_type =
     (if isnull element then Inr VNaT
      else bnd (py_float L element) (of_seconds L return_type))"

subsection \<open>From datetimes\<close>

definition datetime_to_integer ::
  "pylib \<Rightarrow> value \<Rightarrow> bool \<Rightarrow> bool \<Rightarrow> real \<Rightarrow> pytype \<Rightarrow> result" where
  "datetime_to_integer L element rnd force ftol return_type =
     (if isnull element then Inr VNaN else
      bnd (bnd (to_utc element) (timestamp L)) (\<lambda>ts.
      bnd (np_round ts) (\<lambda>rounded.
      bnd (por rnd (abs_diff_lt rounded ts ftol)) (\<lambda>near.
      bnd (if near then construct L return_type rounded
           else construct L return_type ts) (\<lambda>result.
      bnd (por force (abs_diff_lt result ts ftol)) (\<lambda>ok.
      if ok then Inr result
      else Inl (ValueError ''could not convert datetime to int without losing information''
                  element)))))))"

definition datetime_to_float :: "pylib \<Rightarrow> value \<Rightarrow> pytype \<Rightarrow> result" where
  "datetime_to_float L element return_type =
     (if isnull element then Inr VNaN
      else bnd (bnd (to_utc element) (timestamp L)) (construct L return_type))"

definition datetime_to_complex :: "pylib \<Rightarrow> value \<Rightarrow> pytype \<Rightarrow> result" where
  "datetime_to_complex L element return_type =
     (if isnull element then Inr VNaN
      else bnd (bnd (to_utc element) (timestamp L)) (construct L return_type))"

definition datetime_to_string ::
  "pylib \<Rightarrow> value \<Rightarrow> string option \<Rightarrow> pytype \<Rightarrow> result" where
  "datetime_to_string L element format return_type =
     (if isnull element then Inr VNA else
      bnd (to_utc element) (\<lambda>u.
      case format of
        None \<Rightarrow> construct L return_type (VStr (isoformat_of L u))
      | Some fmt \<Rightarrow> construct L return_type (VStr (strftime_of L u fmt))))"

definition datetime_to_boolean ::
  "pylib \<Rightarrow> value \<Rightarrow> bool \<Rightarrow> real \<Rightarrow> pytype \<Rightarrow> result" where
  "datetime_to_boolean L element force ftol return_type =
     (if isnull element then Inr VNA else
      bnd (bnd (to_utc element) (timestamp L)) (\<lambda>ts.
      bnd (construct L return_type ts) (\<lambda>result.
      bnd (abs_diff_lt result ts ftol) (\<lambda>near.
      if near \<or> force then Inr result
      else Inl (ValueError ''could not convert datetime to bool without losing information''
                  element)))))"

definition datetime_to_timedelta :: "pylib \<Rightarrow> value \<Rightarrow> pytype \<Rightarrow> result" where
  "datetime_to_timedelta L element return_type =
     (if isnull element then Inr VNaT
      else bnd (bnd (to_utc element) (timestamp L)) (of_seconds L return_type))"

subsection \<open>From timedeltas\<close>

definition timedelta_to_integer ::
  "pylib \<Rightarrow> value \<Rightarrow> bool \<Rightarrow> bool \<Rightarrow> real \<Rightarrow> pytype \<Rightarrow> result" where
  "timedelta_to_integer L element rnd force ftol return_type =
     (if isnull element then Inr VNaN else
      bnd (total_seconds element) (\<lambda>seconds.
      bnd (np_round seconds) (\<lambda>rounded.
      bnd (por rnd (abs_diff_lt rounded seconds ftol)) (\<lambda>near.
      bnd (if near then construct L return_type rounded
           else construct L return_type seconds) (\<lambda>result.
      bnd (por force (abs_diff_lt result seconds ftol)) (\<lambda>ok.
      if ok then Inr result
      else Inl (ValueError ''could not convert timedelta to int without losing information''
                  element)))))))"

definition timedelta_to_float :: "pylib \<Rightarrow> value \<Rightarrow> pytype \<Rightarrow> result" where
  "timedelta_to_float L element return_type =
     (if isnull element then Inr VNaN
      else bnd (total_seconds element) (construct L return_type))"

definition timedelta_to_complex :: "pylib \<Rightarrow> value \<Rightarrow> pytype \<Rightarrow> result" where
  "timedelta_to_complex L element return_type =
     (if isnull element then Inr VNaN
      else bnd (total_seconds element) (construct L return_type))"

definition timedelta_to_string :: "pylib \<Rightarrow> value \<Rightarrow> pytype \<Rightarrow> result" where
  "timedelta_to_string L element return_type =
     (if isnull element then Inr VNA else construct L return_type element)"

definition timedelta_to_boolean ::
  "pylib \<Rightarrow> value \<Rightarrow> bool \<Rightarrow> real \<Rightarrow> pytype \<Rightarrow> result" where
  "timedelta_to_boolean L element force ftol return_type =
     (if isnull element then Inr VNA else
      bnd (total_seconds element) (\<lambda>seconds.
      bnd (construct L return_type seconds) (\<lambda>result.
      bnd (abs_diff_lt result seconds ftol) (\<lambda>near.
      if near \<or> force then Inr result
      else Inl (ValueError ''could not convert timedelta to bool'' element)))))"

definition timedelta_to_datetime :: "pylib \<Rightarrow> value \<Rightarrow> pytype \<Rightarrow> result" where
  "timedelta_to_datetime L element return_type =
     (if isnull element then Inr VNaT
      else bnd (total_seconds element) (fromtimestamp L return_type))"

section \<open>parse.py\<close>

subsection \<open>The kind classifier\<close>

text \<open>
  \<open>parse_dtype\<close> asks the pandas predicates in a fixed order and returns one of the
  Python classes \<open>int\<close>, \<open>float\<close>, \<open>complex\<close>, \<open>bool\<close>, \<open>datetime\<close>, \<open>timedelta\<close>,
  \<open>object\<close>, \<open>str\<close>, the keys of the conversion maps.
\<close>

definition parse_dtype :: "dtype_tests \<Rightarrow> error + pytype" where
  "parse_dtype dtype =
     (if is_integer_dtype dtype then Inr TyInt
      else if is_float_dtype dtype then Inr TyFloat
      else if is_complex_dtype dtype then Inr TyComplex
      else if is_bool_dtype dtype then Inr TyBool
      else if is_datetime_dtype dtype then Inr TyDatetime
      else if is_timedelta_dtype dtype then Inr TyTimedelta
      else if is_object_dtype dtype then Inr TyObject
      else if is_string_dtype dtype then Inr TyStr
      else Inl (TypeError ''unrecognized dtype''))"

text \<open>\<open>type(element)\<close>, and the answers of pandas for the classes.\<close>

fun py_type :: "value \<Rightarrow> pytype" where
  "py_type (VInt n) = TyInt"
| "py_type (VFloat f) = TyFloat"
| "py_type (VComplex a b) = TyComplex"
| "py_type (VBool b) = TyBool"
| "py_type (VStr s) = TyStr"
| "py_type (VDatetime cls w k) = cls"
| "py_type (VTimedelta cls s) = cls"
| "py_type (VVoid k) = TyVoid"
| "py_type _ = TyObject"

definition no_tests :: dtype_tests where
  "no_tests =
     \<lparr>is_integer_dtype = False, is_float_dtype = False, is_complex_dtype = False,
      is_bool_dtype = False, is_datetime_dtype = False, is_timedelta_dtype = False,
      is_object_dtype = False, is_string_dtype = False\<rparr>"

fun tests_of_type :: "pytype \<Rightarrow> dtype_tests" where
  "tests_of_type TyInt = no_tests\<lparr>is_integer_dtype := True\<rparr>"
| "tests_of_type TyFloat = no_tests\<lparr>is_float_dtype := True\<rparr>"
| "tests_of_type TyComplex = no_tests\<lparr>is_complex_dtype := True\<rparr>"
| "tests_of_type TyBool = no_tests\<lparr>is_bool_dtype := True\<rparr>"
| "tests_of_type TyStr = no_tests\<lparr>is_string_dtype := True\<rparr>"
| "tests_of_type TyDatetime = no_tests\<lparr>is_datetime_dtype := True, is_object_dtype := True\<rparr>"
| "tests_of_type TyTimestamp = no_tests\<lparr>is_datetime_dtype := True, is_object_dtype := True\<rparr>"
| "tests_of_type TyTimedelta = no_tests\<lparr>is_timedelta_dtype := True, is_object_dtype := True\<rparr>"
| "tests_of_type TyPdTimedelta =
     no_tests\<lparr>is_timedelta_dtype := True, is_object_dtype := True\<rparr>"
| "tests_of_type TyObject = no_tests\<lparr>is_object_dtype := True\<rparr>"
| "tests_of_type TyVoid = no_tests"
| "tests_of_type TyInstance = no_tests"

subsection \<open>The string inferencer\<close>

text \<open>
  \<open>str.strip()\<close> and \<open>str.lower()\<close> on strings of code points below 256: the white space
  characters are 9 to 13, 28 to 32, 133 and 160; the upper-case letters are A to Z and
  192 to 222 without 215.
\<close>

definition py_isspace :: "char \<Rightarrow> bool" where
  "py_isspace c =
     (let k = (of_char c :: nat)
      in (9 \<le> k \<and> k \<le> 13) \<or> (28 \<le> k \<and> k \<le> 32) \<or> k = 133 \<or> k = 160)"

definition strip :: "string \<Rightarrow> string" where
  "strip s = rev (dropWhile py_isspace (rev (dropWhile py_isspace s)))"

definition lower_char :: "char \<Rightarrow> char" where
  "lower_char c =
     (let k = (of_char c :: nat)
      in if (65 \<le> k \<and> k \<le> 90) \<or> (192 \<le> k \<and> k \<le> 222 \<and> k \<noteq> 215)
         then char_of (k + 32) else c)"

definition lower :: "string \<Rightarrow> string" where
  "lower s = map lower_char s"

text \<open>
  \<^verbatim>\<open>try: return f(string)  except (TypeError, ValueError): pass\<close> and
  \<^verbatim>\<open>try: return f(string)  except ValueError: pass\<close>: an exception of another class
  leaves \<open>parse_string\<close>.
\<close>

definition try_parse ::
  "(error \<Rightarrow> bool) \<Rightarrow> result \<Rightarrow> result \<Rightarrow> result" where
  "try_parse caught attempt otherwise =
     (case attempt of
        Inr v \<Rightarrow> Inr v
      | Inl e \<Rightarrow> if caught e then otherwise else Inl e)"

fun is_value_error :: "error \<Rightarrow> bool" where
  "is_value_error (ValueError m v) = True"
| "is_value_error _ = False"

fun is_type_or_value_error :: "error \<Rightarrow> bool" where
  "is_type_or_value_error (ValueError m v) = True"
| "is_type_or_value_error (TypeError m) = True"
| "is_type_or_value_error _ = False"

definition parse_string :: "pylib \<Rightarrow> string \<Rightarrow> result" where
  "parse_string L string =
     try_parse is_type_or_value_error (int_of_str L string)
    (try_parse is_type_or_value_error (float_of_str L string)
    (try_parse is_type_or_value_error (complex_of_str L string)
    (try_parse is_value_error (pd_to_timedelta L string)
    (try_parse is_value_error (pd_to_datetime L string)
    (let lowered = lower (strip string)
     in if lowered \<in> set [''t'', ''true''] then Inr (VBool True)
        else if lowered \<in> set [''f'', ''false''] then Inr (VBool False)
        else Inr (VStr string))))))"

section \<open>Calls through the module namespace\<close>

text \<open>
  The keyword arguments of a call: \<open>None\<close> for a keyword that is not passed.
\<close>

record kwargs =
  kw_round :: "bool option"
  kw_force :: "bool option"
  kw_ftol :: "real option"
  kw_format :: "string option option"
  kw_return_type :: "pytype option"

definition passed :: "kwargs \<Rightarrow> string list" where
  "passed kw =
     (if kw_round kw = None then [] else [''round'']) @
     (if kw_force kw = None then [] else [''force'']) @
     (if kw_ftol kw = None then [] else [''ftol'']) @
     (if kw_format kw = None then [] else [''format'']) @
     (if kw_return_type kw = None then [] else [''return_type''])"

definition accepts :: "string list \<Rightarrow> kwargs \<Rightarrow> bool" where
  "accepts params kw = list_all (\<lambda>k. k \<in> set params) (passed kw)"

text \<open>The value of a parameter: the keyword argument if passed, the default otherwise.\<close>

definition arg :: "'a \<Rightarrow> 'a option \<Rightarrow> 'a" where
  "arg dflt a = (case a of None \<Rightarrow> dflt | Some v \<Rightarrow> v)"

text \<open>
  A function of the module as the conversion maps use it: called with positional
  arguments and keyword arguments. \<open>partial(f, **kw)\<close> called on \<open>x\<close> is \<open>f [x] kw\<close>, and
  \<open>partial(f, a)\<close> called on \<open>x\<close> is \<open>f [a, x]\<close> without kwds.
\<close>

type_synonym pyfun = "value list \<Rightarrow> kwargs \<Rightarrow> result"

definition unexpected_keyword :: result where
  "unexpected_keyword = Inl (TypeError ''got an unexpected keyword argument'')"

definition bad_positional :: result where
  "bad_positional = Inl (TypeError ''positional arguments'')"

text \<open>
  The signatures of the rules. A second positional argument lands on the second
  parameter; the maps pass one only to a rule whose second parameter is
  \<open>return_type\<close>, where an argument that is not a class is \<open>TyInstance\<close>.
\<close>

definition def_rt :: "pytype \<Rightarrow> (value \<Rightarrow> pytype \<Rightarrow> result) \<Rightarrow> pyfun" where
  "def_rt dflt body args kw =
     (if \<not> accepts [''return_type''] kw then unexpected_keyword
      else case args of
        [x] \<Rightarrow> body x (arg dflt (kw_return_type kw))
      | [x, y] \<Rightarrow>
          if kw_return_type kw \<noteq> None
          then Inl (TypeError ''got multiple values for argument return_type'')
          else body x (case y of VType t \<Rightarrow> t | _ \<Rightarrow> TyInstance)
      | _ \<Rightarrow> bad_positional)"

definition def_force_rt ::
  "pytype \<Rightarrow> (value \<Rightarrow> bool \<Rightarrow> pytype \<Rightarrow> result) \<Rightarrow> pyfun" where
  "def_force_rt dflt body args kw =
     (if \<not> accepts [''force'', ''return_type''] kw then unexpected_keyword
      else case args of
        [x] \<Rightarrow> body x (arg False (kw_force kw)) (arg dflt (kw_return_type kw))
      | _ \<Rightarrow> bad_positional)"

definition def_force_ftol_rt ::
  "pytype \<Rightarrow> (value \<Rightarrow> bool \<Rightarrow> real \<Rightarrow> pytype \<Rightarrow> result) \<Rightarrow> pyfun" where
  "def_force_ftol_rt dflt body args kw =
     (if \<not> accepts [''force'', ''ftol'', ''return_type''] kw then unexpected_keyword
      else case args of
        [x] \<Rightarrow> body x (arg False (kw_force kw)) (arg (1 / 10 ^ 6) (kw_ftol kw))
                 (arg dflt (kw_return_type kw))
      | _ \<Rightarrow> bad_positional)"

text \<open>
  \<open>float_to_integer\<close> has \<open>force\<close> before \<open>round\<close>; the other rules to integers have
  \<open>round\<close> before \<open>force\<close>.
\<close>

definition def_force_round_ftol_rt ::
  "pytype \<Rightarrow> (value \<Rightarrow> bool \<Rightarrow> bool \<Rightarrow> real \<Rightarrow> pytype \<Rightarrow> result) \<Rightarrow> pyfun" where
  "def_force_round_ftol_rt dflt body args kw =
     (if \<not> accepts [''force'', ''round'', ''ftol'', ''return_type''] kw
      then unexpected_keyword
      else case args of
        [x] \<Rightarrow> body x (arg False (kw_force kw)) (arg True (kw_round kw))
                 (arg (1 / 10 ^ 6) (kw_ftol kw)) (arg dflt (kw_return_type kw))
      | _ \<Rightarrow> bad_positional)"

definition def_round_force_ftol_rt ::
  "pytype \<Rightarrow> (value \<Rightarrow> bool \<Rightarrow> bool \<Rightarrow> real \<Rightarrow> pytype \<Rightarrow> result) \<Rightarrow> pyfun" where
  "def_round_force_ftol_rt dflt body args kw =
     (if \<not> accepts [''round'', ''force'', ''ftol'', ''return_type''] kw
      then unexpected_keyword
      else case args of
        [x] \<Rightarrow> body x (arg True (kw_round kw)) (arg False (kw_force kw))
                 (arg (1 / 10 ^ 6) (kw_ftol kw)) (arg dflt (kw_return_type kw))
      | _ \<Rightarrow> bad_positional)"

definition def_format_rt ::
  "pytype \<Rightarrow> (value \<Rightarrow> string option \<Rightarrow> pytype \<Rightarrow> result) \<Rightarrow> pyfun" where
  "def_format_rt dflt body args kw =
     (if \<not> accepts [''format'', ''return_type''] kw then unexpected_keyword
      else case args of
        [x] \<Rightarrow> body x (arg None (kw_format kw)) (arg dflt (kw_return_type kw))
      | _ \<Rightarrow> bad_positional)"

definition def_force_ftol_format_rt ::
  "pytype \<Rightarrow> (value \<Rightarrow> bool \<Rightarrow> real \<Rightarrow> string option \<Rightarrow> pytype \<Rightarrow> result) \<Rightarrow> pyfun"
  where
  "def_force_ftol_format_rt dflt body args kw =
     (if \<not> accepts [''force'', ''ftol'', ''format'', ''return_type''] kw
      then unexpected_keyword
      else case args of
        [x] \<Rightarrow> body x (arg False (kw_force kw)) (arg (1 / 10 ^ 6) (kw_ftol kw))
                 (arg None (kw_format kw)) (arg dflt (kw_return_type kw))
      | _ \<Rightarrow> bad_positional)"

definition def_round_force_ftol_format_rt ::
  "pytype \<Rightarrow> (value \<Rightarrow> bool \<Rightarrow> bool \<Rightarrow> real \<Rightarrow> string option \<Rightarrow> pytype \<Rightarrow> result)
   \<Rightarrow> pyfun" where
  "def_round_force_ftol_format_rt dflt body args kw =
     (if \<not> accepts [''round'', ''force'', ''ftol'', ''format'', ''return_type''] kw
      then unexpected_keyword
      else case args of
        [x] \<Rightarrow> body x (arg True (kw_round kw)) (arg False (kw_force kw))
                 (arg (1 / 10 ^ 6) (kw_ftol kw)) (arg None (kw_format kw))
                 (arg dflt (kw_return_type kw))
      | _ \<Rightarrow> bad_positional)"

definition def_force_format_rt ::
  "pytype \<Rightarrow> (value \<Rightarrow> bool \<Rightarrow> string option \<Rightarrow> pytype \<Rightarrow> result) \<Rightarrow> pyfun" where
  "def_force_format_rt dflt body args kw =
     (if \<not> accepts [''force'', ''format'', ''return_type''] kw then unexpected_keyword
      else case args of
        [x] \<Rightarrow> body x (arg False (kw_force kw)) (arg None (kw_format kw))
                 (arg dflt (kw_return_type kw))
      | _ \<Rightarrow> bad_positional)"

text \<open>
  A free name in a function body is looked up in the module namespace when the body
  runs; a name that is not bound raises \<open>NameError\<close>.
\<close>

type_synonym namespace = "string \<Rightarrow> pyfun option"

definition global :: "namespace \<Rightarrow> string \<Rightarrow> error + pyfun" where
  "global g name = (case g name of None \<Rightarrow> Inl (NameError name) | Some f \<Rightarrow> Inr f)"

text \<open>
  The rules that the \<^verbatim>\<open>def\<close> statements of apply.py bind, other than the rules from
  strings, under the names the statements give them: the rules from integers and
  \<open>float_to_integer\<close>, \<open>float_to_complex\<close>, \<open>float_to_string\<close> without a leading
  underscore, all others with one.
\<close>

definition apply_rules :: "pylib \<Rightarrow> namespace" where
  "apply_rules L = map_of
     [(''integer_to_float'', def_rt TyFloat (integer_to_float L)),
      (''integer_to_complex'', def_rt TyComplex (integer_to_complex L)),
      (''integer_to_string'', def_rt TyStr (integer_to_string L)),
      (''integer_to_boolean'', def_force_rt TyBool (integer_to_boolean L)),
      (''integer_to_datetime'', def_rt TyTimestamp (integer_to_datetime L)),
      (''integer_to_timedelta'', def_rt TyPdTimedelta (integer_to_timedelta L)),
      (''float_to_integer'', def_force_round_ftol_rt TyInt (float_to_integer L)),
      (''float_to_complex'', def_rt TyComplex (float_to_complex L)),
      (''float_to_string'', def_rt TyStr (float_to_string L)),
      (''_float_to_boolean'', def_force_ftol_rt TyBool (float_to_boolean L)),
      (''_float_to_datetime'', def_rt TyTimestamp (float_to_datetime L)),
      (''_float_to_timedelta'', def_rt TyPdTimedelta (float_to_timedelta L)),
      (''_complex_to_integer'', def_round_force_ftol_rt TyInt (complex_to_integer L)),
      (''_complex_to_float'', def_force_ftol_rt TyFloat (complex_to_float L)),
      (''_complex_to_string'', def_rt TyStr (complex_to_string L)),
      (''_complex_to_boolean'', def_force_ftol_rt TyBool (complex_to_boolean L)),
      (''_complex_to_datetime'', def_force_ftol_rt TyTimestamp (complex_to_datetime L)),
      (''_complex_to_timedelta'', def_force_ftol_rt TyPdTimedelta (complex_to_timedelta L)),
      (''_boolean_to_integer'', def_rt TyInt (boolean_to_integer L)),
      (''_boolean_to_float'', def_rt TyFloat (boolean_to_float L)),
      (''_boolean_to_complex'', def_rt TyComplex (boolean_to_complex L)),
      (''_boolean_to_string'', def_rt TyStr (boolean_to_string L)),
      (''_boolean_to_datetime'', def_rt TyTimestamp (boolean_to_datetime L)),
      (''_boolean_to_timedelta'', def_rt TyPdTimedelta (boolean_to_timedelta L)),
      (''_datetime_to_integer'', def_round_force_ftol_rt TyInt (datetime_to_integer L)),
      (''_datetime_to_float'', def_rt TyFloat (datetime_to_float L)),
      (''_datetime_to_complex'', def_rt TyComplex (datetime_to_complex L)),
      (''_datetime_to_string'', def_format_rt TyStr (datetime_to_string L)),
      (''_datetime_to_boolean'', def_force_ftol_rt TyBool (datetime_to_boolean L)),
      (''_datetime_to_timedelta'', def_rt TyPdTimedelta (datetime_to_timedelta L)),
      (''_timedelta_to_integer'', def_round_force_ftol_rt TyInt (timedelta_to_integer L)),
      (''_timedelta_to_float'', def_rt TyFloat (timedelta_to_float L)),
      (''_timedelta_to_complex'', def_rt TyComplex (timedelta_to_complex L)),
      (''_timedelta_to_string'', def_rt TyStr (timedelta_to_string L)),
      (''_timedelta_to_boolean'', def_force_ftol_rt TyBool (timedelta_to_boolean L)),
      (''_timedelta_to_datetime'', def_rt TyTimestamp (timedelta_to_datetime L))]"

section \<open>Rules from strings and entry points\<close>

definition kwds ::
  "bool option \<Rightarrow> bool option \<Rightarrow> real option \<Rightarrow> string option option \<Rightarrow> pytype option
   \<Rightarrow> kwargs" where
  "kwds r f t fm rt =
     \<lparr>kw_round = r, kw_force = f, kw_ftol = t, kw_format = fm, kw_return_type = rt\<rparr>"

text \<open>\<open>conversion_map[key](x)\<close>: a missing key raises \<open>KeyError\<close>.\<close>

definition subscript_call ::
  "(pytype \<Rightarrow> (value \<Rightarrow> result) option) \<Rightarrow> pytype \<Rightarrow> value \<Rightarrow> result" where
  "subscript_call conversion_map key x =
     (case conversion_map key of None \<Rightarrow> Inl KeyError | Some f \<Rightarrow> f x)"

text \<open>
  \<^verbatim>\<open>try: ... except (KeyError, ValueError): raise ValueError(err_msg)\<close>: the two classes
  are replaced by a \<open>ValueError\<close> with the message of the handler and the \<open>repr\<close> of
  \<open>element\<close>; any other exception passes.
\<close>

definition reraise :: "string \<Rightarrow> value \<Rightarrow> result \<Rightarrow> result" where
  "reraise err_msg element r =
     (case r of
        Inl KeyError \<Rightarrow> Inl (ValueError err_msg element)
      | Inl (ValueError m v) \<Rightarrow> Inl (ValueError err_msg element)
      | _ \<Rightarrow> r)"

text \<open>
  A conversion map is a dict literal: its entries are evaluated in the order written,
  each global name when its entry is reached, before the map is used. The namespace is
  the parameter \<open>g\<close>.
\<close>

definition string_to_integer ::
  "pylib \<Rightarrow> namespace \<Rightarrow> value \<Rightarrow> bool \<Rightarrow> bool \<Rightarrow> real \<Rightarrow> string option \<Rightarrow> pytype \<Rightarrow> result" where
  "string_to_integer L g element rnd force ftol format return_type =
     (if isnull element then Inr VNaN else
      bnd (global g ''_float_to_integer'') (\<lambda>f_float.
      bnd (global g ''_complex_to_integer'') (\<lambda>f_complex.
      bnd (global g ''_boolean_to_integer'') (\<lambda>f_bool.
      bnd (global g ''_datetime_to_integer'') (\<lambda>f_datetime.
      bnd (global g ''_timedelta_to_integer'') (\<lambda>f_timedelta.
      let conversion_map = map_of
        [(TyInt, \<lambda>x. construct L return_type x),
         (TyFloat, \<lambda>x. f_float [x] (kwds (Some rnd) (Some force) (Some ftol) None (Some return_type))),
         (TyComplex, \<lambda>x. f_complex [x] (kwds (Some rnd) (Some force) (Some ftol) None (Some return_type))),
         (TyBool, \<lambda>x. f_bool [x] (kwds None None None None (Some return_type))),
         (TyDatetime, \<lambda>x. f_datetime [x] (kwds (Some rnd) (Some force) (Some ftol) None (Some return_type))),
         (TyTimedelta, \<lambda>x. f_timedelta [x] (kwds (Some rnd) (Some force) (Some ftol) None (Some return_type)))]
      in
      bnd (imported_parse_string L element format) (\<lambda>parsed.
      bnd (parse_dtype (tests_of_type (py_type parsed))) (\<lambda>parsed_dtype.
      reraise ''could not convert str to int without losing information'' element
        (subscript_call conversion_map parsed_dtype parsed)))))))))"

definition string_to_float ::
  "pylib \<Rightarrow> namespace \<Rightarrow> value \<Rightarrow> bool \<Rightarrow> real \<Rightarrow> string option \<Rightarrow> pytype \<Rightarrow> result" where
  "string_to_float L g element force ftol format return_type =
     (if isnull element then Inr VNaN else
      bnd (global g ''_integer_to_float'') (\<lambda>f_int.
      bnd (global g ''_complex_to_float'') (\<lambda>f_complex.
      bnd (global g ''_boolean_to_float'') (\<lambda>f_bool.
      bnd (global g ''_datetime_to_float'') (\<lambda>f_datetime.
      bnd (global g ''_timedelta_to_float'') (\<lambda>f_timedelta.
      let conversion_map = map_of
        [(TyInt, \<lambda>x. f_int [x] (kwds None None None None (Some return_type))),
         (TyFloat, \<lambda>x. construct L return_type x),
         (TyComplex, \<lambda>x. f_complex [x] (kwds None (Some force) (Some ftol) None (Some return_type))),
         (TyBool, \<lambda>x. f_bool [x] (kwds None None None None (Some return_type))),
         (TyDatetime, \<lambda>x. f_datetime [x] (kwds None None None None (Some return_type))),
         (TyTimedelta, \<lambda>x. f_timedelta [x] (kwds None None None None (Some return_type)))]
      in
      bnd (imported_parse_string L element format) (\<lambda>parsed.
      bnd (parse_dtype (tests_of_value L parsed)) (\<lambda>parsed_dtype.
      reraise ''could not convert str to float'' element
        (subscript_call conversion_map parsed_dtype parsed)))))))))"

definition string_to_complex ::
  "pylib \<Rightarrow> namespace \<Rightarrow> value \<Rightarrow> string option \<Rightarrow> pytype \<Rightarrow> result" where
  "string_to_complex L g element format return_type =
     (if isnull element then Inr VNaN else
      bnd (global g ''_integer_to_complex'') (\<lambda>f_int.
      bnd (global g ''_float_to_complex'') (\<lambda>f_float.
      bnd (global g ''_boolean_to_complex'') (\<lambda>f_bool.
      bnd (global g ''_datetime_to_complex'') (\<lambda>f_datetime.
      bnd (global g ''_timedelta_to_complex'') (\<lambda>f_timedelta.
      let conversion_map = map_of
        [(TyInt, \<lambda>x. f_int [x] (kwds None None None None (Some return_type))),
         (TyFloat, \<lambda>x. f_float [x] (kwds None None None None (Some return_type))),
         (TyComplex, \<lambda>x. construct L return_type x),
         (TyBool, \<lambda>x. f_bool [x] (kwds None None None None (Some return_type))),
         (TyDatetime, \<lambda>x. f_datetime [x] (kwds None None None None (Some return_type))),
         (TyTimedelta, \<lambda>x. f_timedelta [x] (kwds None None None None (Some return_type)))]
      in
      bnd (imported_parse_string L element format) (\<lambda>parsed.
      bnd (parse_dtype (tests_of_value L parsed)) (\<lambda>parsed_dtype.
      reraise ''could not convert str to complex'' element
        (subscript_call conversion_map parsed_dtype parsed)))))))))"

definition string_to_boolean ::
  "pylib \<Rightarrow> namespace \<Rightarrow> value \<Rightarrow> bool \<Rightarrow> real \<Rightarrow> string option \<Rightarrow> pytype \<Rightarrow> result" where
  "string_to_boolean L g element force ftol format return_type =
     (if isnull element then Inr VNA else
      bnd (global g ''_integer_to_boolean'') (\<lambda>f_int.
      bnd (global g ''_float_to_boolean'') (\<lambda>f_float.
      bnd (global g ''_complex_to_boolean'') (\<lambda>f_complex.
      bnd (global g ''_datetime_to_boolean'') (\<lambda>f_datetime.
      bnd (global g ''_timedelta_to_boolean'') (\<lambda>f_timedelta.
      let conversion_map = map_of
        [(TyInt, \<lambda>x. f_int [x] (kwds None (Some force) None None (Some return_type))),
         (TyFloat, \<lambda>x. f_float [x] (kwds None (Some force) (Some ftol) None (Some return_type))),
         (TyComplex, \<lambda>x. f_complex [x] (kwds None (Some force) (Some ftol) None (Some return_type))),
         (TyBool, \<lambda>x. construct L return_type x),
         (TyDatetime, \<lambda>x. f_datetime [x] (kwds None (Some force) (Some ftol) None (Some return_type))),
         (TyTimedelta, \<lambda>x. f_timedelta [x] (kwds None (Some force) (Some ftol) None (Some return_type)))]
      in
      bnd (imported_parse_string L element format) (\<lambda>parsed.
      bnd (parse_dtype (tests_of_value L parsed)) (\<lambda>parsed_dtype.
      reraise ''could not convert str to bool'' element
        (subscript_call conversion_map parsed_dtype parsed)))))))))"

text \<open>
  The entry for \<open>bool\<close> of the next map is \<open>partial(_boolean_to_datetime,
  return_type(return_type))\<close>: the class is called on itself when the map is built, and
  the result is the first positional argument of every later call.
\<close>

definition string_to_datetime ::
  "pylib \<Rightarrow> namespace \<Rightarrow> value \<Rightarrow> bool \<Rightarrow> real \<Rightarrow> string option \<Rightarrow> pytype \<Rightarrow> result" where
  "string_to_datetime L g element force ftol format return_type =
     (if isnull element then Inr VNaT else
      bnd (global g ''_integer_to_datetime'') (\<lambda>f_int.
      bnd (global g ''_float_to_datetime'') (\<lambda>f_float.
      bnd (global g ''_complex_to_datetime'') (\<lambda>f_complex.
      bnd (global g ''_boolean_to_datetime'') (\<lambda>f_bool.
      bnd (construct L return_type (VType return_type)) (\<lambda>bound.
      bnd (global g ''_timedelta_to_datetime'') (\<lambda>f_timedelta.
      let conversion_map = map_of
        [(TyInt, \<lambda>x. f_int [x] (kwds None None None None (Some return_type))),
         (TyFloat, \<lambda>x. f_float [x] (kwds None None None None (Some return_type))),
         (TyComplex, \<lambda>x. f_complex [x] (kwds None (Some force) (Some ftol) None (Some return_type))),
         (TyBool, \<lambda>x. f_bool [bound, x] (kwds None None None None None)),
         (TyDatetime, \<lambda>x. if return_type = TyDatetime then Inr x else construct L return_type x),
         (TyTimedelta, \<lambda>x. f_timedelta [x] (kwds None None None None (Some return_type)))]
      in
      bnd (imported_parse_string L element format) (\<lambda>parsed.
      bnd (parse_dtype (tests_of_value L parsed)) (\<lambda>parsed_dtype.
      reraise ''could not convert str to datetime'' element
        (subscript_call conversion_map parsed_dtype parsed))))))))))"

text \<open>
  The entry for \<open>timedelta\<close> of the next map reads \<open>element.total_seconds()\<close>, of the
  string \<open>element\<close> and not of its argument.
\<close>

definition string_to_timedelta ::
  "pylib \<Rightarrow> namespace \<Rightarrow> value \<Rightarrow> bool \<Rightarrow> string option \<Rightarrow> pytype \<Rightarrow> result" where
  "string_to_timedelta L g element force format return_type =
     (if isnull element then Inr VNaT else
      bnd (global g ''_integer_to_timedelta'') (\<lambda>f_int.
      bnd (global g ''_float_to_timedelta'') (\<lambda>f_float.
      bnd (global g ''_complex_to_timedelta'') (\<lambda>f_complex.
      bnd (global g ''_boolean_to_timedelta'') (\<lambda>f_bool.
      bnd (global g ''_datetime_to_timedelta'') (\<lambda>f_datetime.
      let conversion_map = map_of
        [(TyInt, \<lambda>x. f_int [x] (kwds None None None None (Some return_type))),
         (TyFloat, \<lambda>x. f_float [x] (kwds None None None None (Some return_type))),
         (TyComplex, \<lambda>x. f_complex [x] (kwds None (Some force) None None (Some return_type))),
         (TyBool, \<lambda>x. f_bool [x] (kwds None None None None (Some return_type))),
         (TyDatetime, \<lambda>x. f_datetime [x] (kwds None None None None (Some return_type))),
         (TyTimedelta, \<lambda>x. bnd (total_seconds element) (of_seconds L return_type))]
      in
      bnd (imported_parse_string L element format) (\<lambda>parsed.
      bnd (parse_dtype (tests_of_value L parsed)) (\<lambda>parsed_dtype.
      reraise ''could not convert str to timedelta'' element
        (subscript_call conversion_map parsed_dtype parsed)))))))))"

subsection \<open>Entry points\<close>

text \<open>
  The decorator \<open>@cache\<close> memoises a pure function of hashable arguments and does not
  change its results. The parameter \<open>func\<close> of \<open>to_datetime\<close> is not used by its body.
\<close>

definition to_integer ::
  "pylib \<Rightarrow> namespace \<Rightarrow> value \<Rightarrow> bool \<Rightarrow> bool \<Rightarrow> real \<Rightarrow> string option \<Rightarrow> pytype \<Rightarrow> result" where
  "to_integer L g element rnd force ftol format return_type =
     (if isnull element then Inr VNaN else
      bnd (global g ''_float_to_integer'') (\<lambda>f_float.
      bnd (global g ''_complex_to_integer'') (\<lambda>f_complex.
      bnd (global g ''_string_to_integer'') (\<lambda>f_str.
      bnd (global g ''_boolean_to_integer'') (\<lambda>f_bool.
      bnd (global g ''_datetime_to_integer'') (\<lambda>f_datetime.
      bnd (global g ''_timedelta_to_integer'') (\<lambda>f_timedelta.
      let conversion_map = map_of
        [(TyInt, \<lambda>x. construct L return_type element),
         (TyFloat, \<lambda>x. f_float [x] (kwds (Some rnd) (Some force) (Some ftol) None (Some return_type))),
         (TyComplex, \<lambda>x. f_complex [x] (kwds (Some rnd) (Some force) (Some ftol) None (Some return_type))),
         (TyStr, \<lambda>x. f_str [x] (kwds (Some rnd) (Some force) (Some ftol) (Some format) (Some return_type))),
         (TyBool, \<lambda>x. f_bool [x] (kwds None None None None (Some return_type))),
         (TyDatetime, \<lambda>x. f_datetime [x] (kwds (Some rnd) (Some force) (Some ftol) None (Some return_type))),
         (TyTimedelta, \<lambda>x. f_timedelta [x] (kwds (Some rnd) (Some force) (Some ftol) None (Some return_type))),
         (TyObject, \<lambda>x. bnd (py_int L x) (construct L return_type))]
      in
      bnd (parse_dtype (tests_of_type (py_type element))) (\<lambda>from_type.
      reraise ''could not convert element to int'' element
        (subscript_call conversion_map from_type element)))))))))"

definition to_float ::
  "pylib \<Rightarrow> namespace \<Rightarrow> value \<Rightarrow> bool \<Rightarrow> real \<Rightarrow> string option \<Rightarrow> pytype \<Rightarrow> result" where
  "to_float L g element force ftol format return_type =
     (if isnull element then Inr VNaN else
      bnd (global g ''_integer_to_float'') (\<lambda>f_int.
      bnd (global g ''_complex_to_float'') (\<lambda>f_complex.
      bnd (global g ''_string_to_float'') (\<lambda>f_str.
      bnd (global g ''_boolean_to_float'') (\<lambda>f_bool.
      bnd (global g ''_datetime_to_float'') (\<lambda>f_datetime.
      bnd (global g ''_timedelta_to_float'') (\<lambda>f_timedelta.
      let conversion_map = map_of
        [(TyInt, \<lambda>x. f_int [x] (kwds None None None None (Some return_type))),
         (TyFloat, \<lambda>x. construct L return_type x),
         (TyComplex, \<lambda>x. f_complex [x] (kwds None (Some force) (Some ftol) None (Some return_type))),
         (TyStr, \<lambda>x. f_str [x] (kwds None (Some force) (Some ftol) (Some format) (Some return_type))),
         (TyBool, \<lambda>x. f_bool [x] (kwds None None None None (Some return_type))),
         (TyDatetime, \<lambda>x. f_datetime [x] (kwds None None None None (Some return_type))),
         (TyTimedelta, \<lambda>x. f_timedelta [x] (kwds None None None None (Some return_type))),
         (TyObject, \<lambda>x. bnd (py_float L x) (construct L return_type))]
      in
      bnd (parse_dtype (tests_of_type (py_type element))) (\<lambda>from_type.
      reraise ''could not convert element to float'' element
        (subscript_call conversion_map from_type element)))))))))"

definition to_complex ::
  "pylib \<Rightarrow> namespace \<Rightarrow> value \<Rightarrow> string option \<Rightarrow> pytype \<Rightarrow> result" where
  "to_complex L g element format return_type =
     (if isnull element then Inr VNaN else
      bnd (global g ''_integer_to_complex'') (\<lambda>f_int.
      bnd (global g ''_float_to_complex'') (\<lambda>f_float.
      bnd (global g ''_string_to_complex'') (\<lambda>f_str.
      bnd (global g ''_boolean_to_complex'') (\<lambda>f_bool.
      bnd (global g ''_datetime_to_complex'') (\<lambda>f_datetime.
      bnd (global g ''_timedelta_to_complex'') (\<lambda>f_timedelta.
      let conversion_map = map_of
        [(TyInt, \<lambda>x. f_int [x] (kwds None None None None (Some return_type))),
         (TyFloat, \<lambda>x. f_float [x] (kwds None None None None (Some return_type))),
         (TyComplex, \<lambda>x. construct L return_type x),
         (TyStr, \<lambda>x. f_str [x] (kwds None None None (Some format) (Some return_type))),
         (TyBool, \<lambda>x. f_bool [x] (kwds None None None None (Some return_type))),
         (TyDatetime, \<lambda>x. f_datetime [x] (kwds None None None None (Some return_type))),
         (TyTimedelta, \<lambda>x. f_timedelta [x] (kwds None None None None (Some return_type))),
         (TyObject, \<lambda>x. bnd (py_complex L x) (construct L return_type))]
      in
      bnd (parse_dtype (tests_of_type (py_type element))) (\<lambda>from_type.
      reraise ''could not convert element to complex'' element
        (subscript_call conversion_map from_type element)))))))))"

definition to_boolean ::
  "pylib \<Rightarrow> namespace \<Rightarrow> value \<Rightarrow> bool \<Rightarrow> real \<Rightarrow> string option \<Rightarrow> pytype \<Rightarrow> result" where
  "to_boolean L g element force ftol format return_type =
     (if isnull element then Inr VNA else
      bnd (global g ''_integer_to_boolean'') (\<lambda>f_int.
      bnd (global g ''_float_to_boolean'') (\<lambda>f_float.
      bnd (global g ''_complex_to_boolean'') (\<lambda>f_complex.
      bnd (global g ''_string_to_boolean'') (\<lambda>f_str.
      bnd (global g ''_datetime_to_boolean'') (\<lambda>f_datetime.
      bnd (global g ''_timedelta_to_boolean'') (\<lambda>f_timedelta.
      let conversion_map = map_of
        [(TyInt, \<lambda>x. f_int [x] (kwds None (Some force) (Some ftol) None (Some return_type))),
         (TyFloat, \<lambda>x. f_float [x] (kwds None (Some force) (Some ftol) None (Some return_type))),
         (TyComplex, \<lambda>x. f_complex [x] (kwds None (Some force) (Some ftol) None (Some return_type))),
         (TyStr, \<lambda>x. f_str [x] (kwds None (Some force) (Some ftol) (Some format) (Some return_type))),
         (TyBool, \<lambda>x. construct L return_type x),
         (TyDatetime, \<lambda>x. f_datetime [x] (kwds None (Some force) (Some ftol) None (Some return_type))),
         (TyTimedelta, \<lambda>x. f_timedelta [x] (kwds None (Some force) (Some ftol) None (Some return_type))),
         (TyObject, \<lambda>x. bnd (py_bool L x) (construct L return_type))]
      in
      bnd (parse_dtype (tests_of_type (py_type element))) (\<lambda>from_type.
      reraise ''could not convert element to bool'' element
        (subscript_call conversion_map from_type element)))))))))"

definition to_string ::
  "pylib \<Rightarrow> namespace \<Rightarrow> value \<Rightarrow> string option \<Rightarrow> pytype \<Rightarrow> result" where
  "to_string L g element format return_type =
     (if isnull element then Inr VNA else
      bnd (global g ''_integer_to_string'') (\<lambda>f_int.
      bnd (global g ''_float_to_string'') (\<lambda>f_float.
      bnd (global g ''_complex_to_string'') (\<lambda>f_complex.
      bnd (global g ''_boolean_to_string'') (\<lambda>f_bool.
      bnd (global g ''_datetime_to_string'') (\<lambda>f_datetime.
      bnd (global g ''_timedelta_to_string'') (\<lambda>f_timedelta.
      let conversion_map = map_of
        [(TyInt, \<lambda>x. f_int [x] (kwds None None None None (Some return_type))),
         (TyFloat, \<lambda>x. f_float [x] (kwds None None None None (Some return_type))),
         (TyComplex, \<lambda>x. f_complex [x] (kwds None None None None (Some return_type))),
         (TyStr, \<lambda>x. construct L return_type x),
         (TyBool, \<lambda>x. f_bool [x] (kwds None None None None (Some return_type))),
         (TyDatetime, \<lambda>x. f_datetime [x] (kwds None None None (Some format) (Some return_type))),
         (TyTimedelta, \<lambda>x. f_timedelta [x] (kwds None None None None (Some return_type))),
         (TyObject, \<lambda>x. construct L return_type (VStr (str_of L x)))]
      in
      bnd (parse_dtype (tests_of_type (py_type element))) (\<lambda>from_type.
      reraise ''could not convert element to string'' element
        (subscript_call conversion_map from_type element)))))))))"

definition to_datetime ::
  "pylib \<Rightarrow> namespace \<Rightarrow> value \<Rightarrow> bool \<Rightarrow> real \<Rightarrow> string option \<Rightarrow> pytype \<Rightarrow> result" where
  "to_datetime L g element force ftol format return_type =
     (if isnull element then Inr VNaT else
      bnd (global g ''_integer_to_datetime'') (\<lambda>f_int.
      bnd (global g ''_float_to_datetime'') (\<lambda>f_float.
      bnd (global g ''_complex_to_datetime'') (\<lambda>f_complex.
      bnd (global g ''_string_to_datetime'') (\<lambda>f_str.
      bnd (global g ''_boolean_to_datetime'') (\<lambda>f_bool.
      bnd (global g ''_timedelta_to_datetime'') (\<lambda>f_timedelta.
      let conversion_map = map_of
        [(TyInt, \<lambda>x. f_int [x] (kwds None None None None (Some return_type))),
         (TyFloat, \<lambda>x. f_float [x] (kwds None None None None (Some return_type))),
         (TyComplex, \<lambda>x. f_complex [x] (kwds None (Some force) (Some ftol) None (Some return_type))),
         (TyStr, \<lambda>x. f_str [x] (kwds None (Some force) (Some ftol) (Some format) (Some return_type))),
         (TyBool, \<lambda>x. f_bool [x] (kwds None None None None (Some return_type))),
         (TyDatetime, \<lambda>x. bnd (bnd (to_utc x) (timestamp L)) (fromtimestamp L return_type)),
         (TyTimedelta, \<lambda>x. f_timedelta [x] (kwds None None None None (Some return_type)))]
      in
      bnd (parse_dtype (tests_of_type (py_type element))) (\<lambda>from_type.
      reraise ''could not convert element to datetime'' element
        (subscript_call conversion_map from_type element)))))))))"

definition to_timedelta ::
  "pylib \<Rightarrow> namespace \<Rightarrow> value \<Rightarrow> bool \<Rightarrow> real \<Rightarrow> pytype \<Rightarrow> result" where
  "to_timedelta L g element force ftol return_type =
     (if isnull element then Inr VNaT else
      bnd (global g ''_integer_to_timedelta'') (\<lambda>f_int.
      bnd (global g ''_float_to_timedelta'') (\<lambda>f_float.
      bnd (global g ''_complex_to_timedelta'') (\<lambda>f_complex.
      bnd (global g ''_string_to_timedelta'') (\<lambda>f_str.
      bnd (global g ''_boolean_to_timedelta'') (\<lambda>f_bool.
      bnd (global g ''_datetime_to_timedelta'') (\<lambda>f_datetime.
      let conversion_map = map_of
        [(TyInt, \<lambda>x. f_int [x] (kwds None None None None (Some return_type))),
         (TyFloat, \<lambda>x. f_float [x] (kwds None None None None (Some return_type))),
         (TyComplex, \<lambda>x. f_complex [x] (kwds None (Some force) (Some ftol) None (Some return_type))),
         (TyStr, \<lambda>x. f_str [x] (kwds None (Some force) (Some ftol) None (Some return_type))),
         (TyBool, \<lambda>x. f_bool [x] (kwds None None None None (Some return_type))),
         (TyDatetime, \<lambda>x. f_datetime [x] (kwds None None None None (Some return_type))),
         (TyTimedelta, \<lambda>x. bnd (total_seconds x) (of_seconds L return_type))]
      in
      bnd (parse_dtype (tests_of_type (py_type element))) (\<lambda>from_type.
      reraise ''could not convert element to timedelta'' element
        (subscript_call conversion_map from_type element)))))))))"

subsection \<open>The module as written\<close>

text \<open>
  The namespace that apply.py creates: the rules above and the rules from strings. A
  rule from strings looks up names of other rules only, none of them a rule from
  strings, so its own lookups are in \<open>apply_rules\<close>.
\<close>

definition apply_module :: "pylib \<Rightarrow> namespace" where
  "apply_module L = apply_rules L ++ map_of
     [(''_string_to_integer'',
         def_round_force_ftol_format_rt TyInt (string_to_integer L (apply_rules L))),
      (''_string_to_float'',
         def_force_ftol_format_rt TyFloat (string_to_float L (apply_rules L))),
      (''_string_to_complex'',
         def_format_rt TyFloat (string_to_complex L (apply_rules L))),
      (''_string_to_boolean'',
         def_force_ftol_format_rt TyBool (string_to_boolean L (apply_rules L))),
      (''_string_to_datetime'',
         def_force_ftol_format_rt TyTimestamp (string_to_datetime L (apply_rules L))),
      (''_string_to_timedelta'',
         def_force_format_rt TyPdTimedelta (string_to_timedelta L (apply_rules L)))]"

section \<open>A small library instance\<close>

text \<open>
  An instance of the library parameter for evaluating the kernel on concrete inputs:
  decimal integer literals and decimal fractions with an optional sign, the complex, the
  duration and the datetime literal of the docstring of \<open>parse_string\<close>, UTC as the local
  zone, and no constructor beyond the built-in scalars.
\<close>

definition digit_of :: "char \<Rightarrow> nat option" where
  "digit_of c =
     (let k = (of_char c :: nat) in if 48 \<le> k \<and> k \<le> 57 then Some (k - 48) else None)"

fun digits_of :: "string \<Rightarrow> nat \<Rightarrow> nat option" where
  "digits_of [] acc = Some acc"
| "digits_of (c # cs) acc =
     (case digit_of c of None \<Rightarrow> None | Some d \<Rightarrow> digits_of cs (10 * acc + d))"

definition unsigned_literal :: "string \<Rightarrow> real option" where
  "unsigned_literal u =
     (let ip = takeWhile (\<lambda>c. c \<noteq> CHR ''.'') u;
          rest = dropWhile (\<lambda>c. c \<noteq> CHR ''.'') u;
          fp = tl rest
      in if ip = [] \<and> fp = [] then None
         else case (digits_of ip 0, digits_of fp 0) of
           (Some a, Some b) \<Rightarrow> Some (real a + real b / 10 ^ length fp)
         | _ \<Rightarrow> None)"

definition signed_literal :: "string \<Rightarrow> real option" where
  "signed_literal s =
     (case strip s of
        [] \<Rightarrow> None
      | c # cs \<Rightarrow>
          if c = CHR ''-'' then map_option uminus (unsigned_literal cs)
          else if c = CHR ''+'' then unsigned_literal cs
          else unsigned_literal (c # cs))"

definition small_int_of_str :: "string \<Rightarrow> result" where
  "small_int_of_str s =
     (case signed_literal s of
        Some x \<Rightarrow>
          if CHR ''.'' \<in> set s then Inl (ValueError ''invalid literal for int()'' (VStr s))
          else Inr (VInt \<lfloor>x\<rfloor>)
      | None \<Rightarrow> Inl (ValueError ''invalid literal for int()'' (VStr s)))"

definition small_float_of_str :: "string \<Rightarrow> result" where
  "small_float_of_str s =
     (case signed_literal s of
        Some x \<Rightarrow> Inr (VFinite x)
      | None \<Rightarrow> Inl (ValueError ''could not convert string to float'' (VStr s)))"

definition small_to_timedelta :: "string \<Rightarrow> result" where
  "small_to_timedelta s =
     (if s = ''1 day, 0:00:10'' then Inr (VTimedelta TyPdTimedelta 86410)
      else Inl (ValueError ''unit abbreviation w/o a number'' (VStr s)))"

definition small_complex_of_str :: "string \<Rightarrow> result" where
  "small_complex_of_str s =
     (if s = ''(1+0j)'' then Inr (VComplex (Fin 1) (Fin 0))
      else Inl (ValueError ''complex() arg is a malformed string'' (VStr s)))"

definition small_to_datetime :: "string \<Rightarrow> result" where
  "small_to_datetime s =
     (if s = ''1970-01-01 00:00:00+00:00'' then Inr (VDatetime TyTimestamp 0 (Some 0))
      else Inl (ValueError ''Unknown datetime string format'' (VStr s)))"

text \<open>
  Outside their ranges the classes raise \<open>OverflowError\<close>, except the datetime classes
  below the range of the platform clock and \<open>pd.Timestamp\<close> inside the range of
  \<open>datetime\<close>, which raise \<open>ValueError\<close>.
\<close>

definition small_range_error :: "pytype \<Rightarrow> real \<Rightarrow> error" where
  "small_range_error cls s =
     (if cls = TyTimedelta \<or> cls = TyPdTimedelta \<or> 2 ^ 63 \<le> \<bar>s\<bar> then OverflowError
      else if in_range TyDatetime s
      then ValueError ''Out of bounds nanosecond timestamp'' (VFinite s)
      else ValueError ''year is out of range'' (VFinite s))"

definition small_parsers :: pylib where
  "small_parsers =
     \<lparr>int_of_str = small_int_of_str,
      float_of_str = small_float_of_str,
      complex_of_str = small_complex_of_str,
      pd_to_timedelta = small_to_timedelta,
      pd_to_datetime = small_to_datetime,
      str_of = (\<lambda>v. case v of VStr s \<Rightarrow> s | _ \<Rightarrow> ''<object>''),
      isoformat_of = (\<lambda>v. ''<isoformat>''),
      strftime_of = (\<lambda>v fmt. fmt),
      call_other = (\<lambda>ty v. Inl (TypeError ''unsupported argument'')),
      local_utcoffset = 0,
      tests_of_value = (\<lambda>v. no_tests),
      range_error = small_range_error,
      imported_parse_string = (\<lambda>v fmt. Inl (TypeError ''not a str''))\<rparr>"

text \<open>The imported inferencer of the instance runs the one of parse.py on a string.\<close>

definition small_lib :: pylib where
  "small_lib = small_parsers
     \<lparr>imported_parse_string :=
        (\<lambda>v fmt. case v of
           VStr s \<Rightarrow> parse_string small_parsers s
         | _ \<Rightarrow> Inl (TypeError ''not a str''))\<rparr>"

subsection \<open>The module with the names its maps use\<close>

text \<open>
  The conversion maps write every rule with a leading underscore. \<open>aliased_module\<close> is
  \<open>apply_module\<close> with the nine rules that are defined without the underscore bound
  under the underscored names as well; it is used to tell what the maps do once their
  names resolve.
\<close>

definition aliased_rules :: "pylib \<Rightarrow> namespace" where
  "aliased_rules L = apply_rules L ++ map_of
     [(''_integer_to_float'', def_rt TyFloat (integer_to_float L)),
      (''_integer_to_complex'', def_rt TyComplex (integer_to_complex L)),
      (''_integer_to_string'', def_rt TyStr (integer_to_string L)),
      (''_integer_to_boolean'', def_force_rt TyBool (integer_to_boolean L)),
      (''_integer_to_datetime'', def_rt TyTimestamp (integer_to_datetime L)),
      (''_integer_to_timedelta'', def_rt TyPdTimedelta (integer_to_timedelta L)),
      (''_float_to_integer'', def_force_round_ftol_rt TyInt (float_to_integer L)),
      (''_float_to_complex'', def_rt TyComplex (float_to_complex L)),
      (''_float_to_string'', def_rt TyStr (float_to_string L))]"

definition aliased_module :: "pylib \<Rightarrow> namespace" where
  "aliased_module L = aliased_rules L ++ map_of
     [(''_string_to_integer'',
         def_round_force_ftol_format_rt TyInt (string_to_integer L (aliased_rules L))),
      (''_string_to_float'',
         def_force_ftol_format_rt TyFloat (string_to_float L (aliased_rules L))),
      (''_string_to_complex'',
         def_format_rt TyFloat (string_to_complex L (aliased_rules L))),
      (''_string_to_boolean'',
         def_force_ftol_format_rt TyBool (string_to_boolean L (aliased_rules L))),
      (''_string_to_datetime'',
         def_force_ftol_format_rt TyTimestamp (string_to_datetime L (aliased_rules L))),
      (''_string_to_timedelta'',
         def_force_format_rt TyPdTimedelta (string_to_timedelta L (aliased_rules L)))]"

text \<open>An attempt of the cascade is rejected when it raises an exception its handler catches.\<close>

definition rejected :: "(error \<Rightarrow> bool) \<Rightarrow> result \<Rightarrow> bool" where
  "rejected caught attempt = (case attempt of Inl e \<Rightarrow> caught e | Inr v \<Rightarrow> False)"

definition all_rejected :: "pylib \<Rightarrow> string \<Rightarrow> bool" where
  "all_rejected L s =
     (rejected is_type_or_value_error (int_of_str L s)
      \<and> rejected is_type_or_value_error (float_of_str L s)
      \<and> rejected is_type_or_value_error (complex_of_str L s)
      \<and> rejected is_value_error (pd_to_timedelta L s)
      \<and> rejected is_value_error (pd_to_datetime L s))"

text \<open>
  What may leave an entry point with handler message \<open>err_msg\<close>: no \<open>KeyError\<close>, and no
  \<open>ValueError\<close> other than the one of the handler, which carries \<open>element\<close>.
\<close>

definition conversion_boundary :: "string \<Rightarrow> value \<Rightarrow> result \<Rightarrow> bool" where
  "conversion_boundary err_msg element r =
     (case r of
        Inl KeyError \<Rightarrow> False
      | Inl (ValueError m v) \<Rightarrow> m = err_msg \<and> v = element
      | _ \<Rightarrow> True)"

fun is_key_or_value_error :: "error \<Rightarrow> bool" where
  "is_key_or_value_error KeyError = True"
| "is_key_or_value_error (ValueError m v) = True"
| "is_key_or_value_error _ = False"

section \<open>Verified properties\<close>

subsection \<open>Integer to boolean\<close>

text \<open>
  Claim C9. For every non-null integer \<open>n\<close>, \<open>integer_to_boolean\<close> with \<open>force=False\<close>
  returns \<open>bool(n)\<close> exactly when \<open>n\<close> is 0 or 1 and raises \<open>ValueError\<close> for every
  other integer; with \<open>force=True\<close> it returns \<open>bool(n)\<close> for every integer. The rule
  has no \<open>ftol\<close> parameter, so that a call that passes one raises \<open>TypeError\<close>: the
  acceptance test is the equality \<open>result == element\<close>.
\<close>

theorem integer_to_boolean_exact:
  "integer_to_boolean L (VInt n) False TyBool =
     (if n = 0 \<or> n = 1 then Inr (VBool (n \<noteq> 0))
      else Inl (ValueError ''could not convert int to bool without losing information''
                  (VInt n)))
   \<and> integer_to_boolean L (VInt n) True TyBool = Inr (VBool (n \<noteq> 0))
   \<and> def_force_rt TyBool (integer_to_boolean L) [VInt n]
         (kwds None (Some force) (Some ftol) None (Some TyBool))
       = Inl (TypeError ''got an unexpected keyword argument'')"
  by (auto simp: integer_to_boolean_def bnd_def py_eq_def def_force_rt_def accepts_def
      passed_def kwds_def unexpected_keyword_def)

theorem integer_to_boolean_exact_witness:
  "integer_to_boolean small_lib (VInt 1) False TyBool = Inr (VBool True)
   \<and> integer_to_boolean small_lib (VInt 2) False TyBool =
       Inl (ValueError ''could not convert int to bool without losing information''
              (VInt 2))
   \<and> integer_to_boolean small_lib (VInt 2) True TyBool = Inr (VBool True)"
  using integer_to_boolean_exact [of small_lib 1] integer_to_boolean_exact [of small_lib 2]
  by simp

subsection \<open>Missing input\<close>

text \<open>
  Claim C1. For every target kind and every option set, the entry point for that kind
  called on a missing input (\<open>pd.isnull\<close> holds) returns the missing sentinel of the
  target kind, \<open>np.nan\<close> for the numeric kinds, \<open>pd.NA\<close> for boolean and string, \<open>pd.NaT\<close>
  for datetime and timedelta, and raises nothing; this holds whatever the module
  namespace binds, since the test precedes every lookup.
\<close>

theorem null_propagation:
  "isnull element \<Longrightarrow>
     to_integer L g element rnd force ftol format rt1 = Inr VNaN
   \<and> to_float L g element force ftol format rt2 = Inr VNaN
   \<and> to_complex L g element format rt3 = Inr VNaN
   \<and> to_boolean L g element force ftol format rt4 = Inr VNA
   \<and> to_string L g element format rt5 = Inr VNA
   \<and> to_datetime L g element force ftol format rt6 = Inr VNaT
   \<and> to_timedelta L g element force ftol rt7 = Inr VNaT"
  by (simp add: to_integer_def to_float_def to_complex_def to_boolean_def to_string_def
      to_datetime_def to_timedelta_def)

theorem null_propagation_witness:
  "isnull VNone
   \<and> to_integer small_lib (apply_module small_lib) VNone False False (1 / 10 ^ 6) None TyInt
       = Inr VNaN
   \<and> to_float small_lib (apply_module small_lib) VNaN False (1 / 10 ^ 6) None TyFloat
       = Inr VNaN
   \<and> to_complex small_lib (apply_module small_lib) VNA None TyComplex = Inr VNaN
   \<and> to_boolean small_lib (apply_module small_lib) VNaT True 0 (Some ''%Y'') TyBool = Inr VNA
   \<and> to_string small_lib (apply_module small_lib) VNone None TyStr = Inr VNA
   \<and> to_datetime small_lib (apply_module small_lib) VNone False (1 / 10 ^ 6) None TyTimestamp
       = Inr VNaT
   \<and> to_timedelta small_lib (apply_module small_lib) VNaN False (1 / 10 ^ 6) TyPdTimedelta
       = Inr VNaT"
  using null_propagation [of VNone small_lib "apply_module small_lib"]
    null_propagation [of VNaN small_lib "apply_module small_lib"]
    null_propagation [of VNA small_lib "apply_module small_lib"]
    null_propagation [of VNaT small_lib "apply_module small_lib"]
  by simp

subsection \<open>Names that the module does not bind\<close>

text \<open>
  apply.py defines \<open>integer_to_float\<close>, \<open>integer_to_complex\<close>, \<open>integer_to_string\<close>,
  \<open>integer_to_boolean\<close>, \<open>integer_to_datetime\<close>, \<open>integer_to_timedelta\<close>,
  \<open>float_to_integer\<close>, \<open>float_to_complex\<close> and \<open>float_to_string\<close>; its conversion maps
  name them with a leading underscore, and nothing binds those names.
\<close>

lemma unbound_names:
  "apply_module L ''_integer_to_float'' = None"
  "apply_module L ''_integer_to_complex'' = None"
  "apply_module L ''_integer_to_string'' = None"
  "apply_module L ''_integer_to_boolean'' = None"
  "apply_module L ''_integer_to_datetime'' = None"
  "apply_module L ''_integer_to_timedelta'' = None"
  "apply_module L ''_float_to_integer'' = None"
  "apply_module L ''_float_to_complex'' = None"
  "apply_module L ''_float_to_string'' = None"
  by (simp_all add: apply_module_def apply_rules_def)

lemma unbound_rule_names:
  "apply_rules L ''_integer_to_float'' = None"
  "apply_rules L ''_integer_to_complex'' = None"
  "apply_rules L ''_integer_to_boolean'' = None"
  "apply_rules L ''_integer_to_datetime'' = None"
  "apply_rules L ''_integer_to_timedelta'' = None"
  "apply_rules L ''_float_to_integer'' = None"
  by (simp_all add: apply_rules_def)

text \<open>
  Outside the six names of the rules from strings, the module binds what \<open>apply_rules\<close>
  binds; the rules from strings look up none of those six.
\<close>

lemma apply_module_rule_names:
  "n \<notin> set [''_string_to_integer'', ''_string_to_float'', ''_string_to_complex'',
              ''_string_to_boolean'', ''_string_to_datetime'', ''_string_to_timedelta'']
   \<Longrightarrow> apply_module L n = apply_rules L n"
  by (simp add: apply_module_def map_add_def)

text \<open>
  Every entry point and every rule from strings builds its conversion map before it
  looks at the kind of its input, so on every input that is not missing it raises
  \<open>NameError\<close> for the first unbound name of its map.
\<close>

lemma entry_points_name_error:
  assumes "\<not> isnull element"
  shows "to_integer L (apply_module L) element rnd force ftol format rt
           = Inl (NameError ''_float_to_integer'')"
    and "to_float L (apply_module L) element force ftol format rt
           = Inl (NameError ''_integer_to_float'')"
    and "to_complex L (apply_module L) element format rt
           = Inl (NameError ''_integer_to_complex'')"
    and "to_boolean L (apply_module L) element force ftol format rt
           = Inl (NameError ''_integer_to_boolean'')"
    and "to_string L (apply_module L) element format rt
           = Inl (NameError ''_integer_to_string'')"
    and "to_datetime L (apply_module L) element force ftol format rt
           = Inl (NameError ''_integer_to_datetime'')"
    and "to_timedelta L (apply_module L) element force ftol rt
           = Inl (NameError ''_integer_to_timedelta'')"
  using assms
  by (simp_all add: to_integer_def to_float_def to_complex_def to_boolean_def to_string_def
      to_datetime_def to_timedelta_def global_def unbound_names bnd_def)

lemma string_rules_name_error:
  assumes "\<not> isnull element"
  shows "string_to_integer L (apply_rules L) element rnd force ftol format rt
           = Inl (NameError ''_float_to_integer'')"
    and "string_to_float L (apply_rules L) element force ftol format rt
           = Inl (NameError ''_integer_to_float'')"
    and "string_to_complex L (apply_rules L) element format rt
           = Inl (NameError ''_integer_to_complex'')"
    and "string_to_boolean L (apply_rules L) element force ftol format rt
           = Inl (NameError ''_integer_to_boolean'')"
    and "string_to_datetime L (apply_rules L) element force ftol format rt
           = Inl (NameError ''_integer_to_datetime'')"
    and "string_to_timedelta L (apply_rules L) element force format rt
           = Inl (NameError ''_integer_to_timedelta'')"
  using assms
  by (simp_all add: string_to_integer_def string_to_float_def string_to_complex_def
      string_to_boolean_def string_to_datetime_def string_to_timedelta_def global_def
      unbound_rule_names bnd_def)

text \<open>
  Claim C2 says that \<open>to_boolean("1.0000001", ftol=1e-6)\<close> returns \<open>True\<close> and that
  \<open>to_boolean("1.1", ftol=1e-6)\<close> raises a \<open>ValueError\<close> for the lost precision. The
  module as written does neither: both calls, and the rule \<open>_string_to_boolean\<close> on the
  same strings, raise \<open>NameError\<close> for \<open>_integer_to_boolean\<close>.
\<close>

theorem to_boolean_string_name_error:
  "to_boolean L (apply_module L) (VStr ''1.0000001'') False (1 / 10 ^ 6) None TyBool
     = Inl (NameError ''_integer_to_boolean'')
   \<and> to_boolean L (apply_module L) (VStr ''1.1'') False (1 / 10 ^ 6) None TyBool
     = Inl (NameError ''_integer_to_boolean'')
   \<and> string_to_boolean L (apply_rules L) (VStr ''1.0000001'') False (1 / 10 ^ 6) None TyBool
     = Inl (NameError ''_integer_to_boolean'')
   \<and> string_to_boolean L (apply_rules L) (VStr ''1.1'') False (1 / 10 ^ 6) None TyBool
     = Inl (NameError ''_integer_to_boolean'')"
  by (simp add: entry_points_name_error string_rules_name_error)

text \<open>
  Claim C7 says that \<open>to_float(to_integer(to_float(n)))\<close> returns \<open>n\<close> for every integer
  \<open>n\<close>. In the module as written the innermost call already raises \<open>NameError\<close> for
  \<open>_integer_to_float\<close>, for every integer and every option set, and so does
  \<open>to_integer\<close> on every float for \<open>_float_to_integer\<close>.
\<close>

theorem round_trip_name_error:
  "to_float L (apply_module L) (VInt n) force ftol format rt
     = Inl (NameError ''_integer_to_float'')
   \<and> to_integer L (apply_module L) (VFinite x) rnd force ftol format rt'
     = Inl (NameError ''_float_to_integer'')
   \<and> bnd (to_float L (apply_module L) (VInt n) force ftol format rt) (\<lambda>a.
       bnd (to_integer L (apply_module L) a rnd force ftol format rt')
         (\<lambda>b. to_float L (apply_module L) b force ftol format rt))
     = Inl (NameError ''_integer_to_float'')"
  by (simp add: entry_points_name_error bnd_def)

text \<open>
  Claim C10 says that an input classified as \<open>object\<close> raises the conversion error in
  \<open>to_datetime\<close> and \<open>to_timedelta\<close> and reaches the native constructor of the target in
  the other five entry points. In the module as written all seven raise \<open>NameError\<close> on
  such an input, before the map is consulted.
\<close>

theorem object_input_name_error:
  "to_datetime L (apply_module L) (VObject k) force ftol format rt6
     = Inl (NameError ''_integer_to_datetime'')
   \<and> to_timedelta L (apply_module L) (VObject k) force ftol rt7
     = Inl (NameError ''_integer_to_timedelta'')
   \<and> to_integer L (apply_module L) (VObject k) rnd force ftol format rt1
     = Inl (NameError ''_float_to_integer'')
   \<and> to_float L (apply_module L) (VObject k) force ftol format rt2
     = Inl (NameError ''_integer_to_float'')
   \<and> to_complex L (apply_module L) (VObject k) format rt3
     = Inl (NameError ''_integer_to_complex'')
   \<and> to_boolean L (apply_module L) (VObject k) force ftol format rt4
     = Inl (NameError ''_integer_to_boolean'')
   \<and> to_string L (apply_module L) (VObject k) format rt5
     = Inl (NameError ''_integer_to_string'')"
  by (simp add: entry_points_name_error)

subsection \<open>Float to integer\<close>

lemma py_trunc_of_int: "py_trunc (of_int n) = n"
  by (simp add: py_trunc_def)

lemma round_half_even_cases:
  "round_half_even x = \<lfloor>x\<rfloor> \<and> frac x \<le> 1 / 2
   \<or> round_half_even x = \<lfloor>x\<rfloor> + 1 \<and> 1 / 2 \<le> frac x"
  by (auto simp: round_half_even_def Let_def frac_def)

lemma int_distance_lower:
  fixes x :: real
  shows "min (frac x) (1 - frac x) \<le> \<bar>of_int k - x\<bar>"
proof (cases "k \<le> \<lfloor>x\<rfloor>")
  case True
  then have "of_int k \<le> (of_int \<lfloor>x\<rfloor> :: real)" by simp
  then have "frac x \<le> x - of_int k" by (simp add: frac_def)
  then show ?thesis by linarith
next
  case False
  then have "\<lfloor>x\<rfloor> + 1 \<le> k" by simp
  then have "(of_int \<lfloor>x\<rfloor> :: real) + 1 \<le> of_int k" by linarith
  then have "1 - frac x \<le> of_int k - x" by (simp add: frac_def)
  then show ?thesis by linarith
qed

lemma round_half_even_distance:
  fixes x :: real
  shows "\<bar>of_int (round_half_even x) - x\<bar> = min (frac x) (1 - frac x)"
  using round_half_even_cases [of x] frac_lt_1 [of x] frac_ge_0 [of x]
  by (auto simp: frac_def min_def)

lemma round_half_even_nearest:
  fixes x :: real
  shows "\<bar>of_int (round_half_even x) - x\<bar> \<le> \<bar>of_int k - x\<bar>"
  by (simp only: round_half_even_distance int_distance_lower)

lemma cmod_real_part: "cmod (Complex x 0) = \<bar>x\<bar>"
  by (simp add: cmod_def)

lemma complex_diff_parts: "Complex (a - Re z) (0 - Im z) = of_real a - z"
  by (simp add: complex_eq_iff)

lemma abs_diff_lt_float [simp]:
  "abs_diff_lt (VFinite a) (VFinite b) ftol = Inr (\<bar>a - b\<bar> < ftol)"
  "abs_diff_lt (VInt n) (VFinite b) ftol = Inr (\<bar>of_int n - b\<bar> < ftol)"
  "abs_diff_lt (VBool c) (VFinite b) ftol = Inr (\<bar>(if c then 1 else 0) - b\<bar> < ftol)"
  by (simp_all add: abs_diff_lt_def cmod_real_part)

text \<open>With an infinite float on either side no difference is within a tolerance.\<close>

lemma abs_diff_lt_infinite [simp]:
  "f \<noteq> NaN \<Longrightarrow> abs_diff_lt (VFloat PInf) (VFloat f) ftol = Inr False"
  "f \<noteq> NaN \<Longrightarrow> abs_diff_lt (VFloat NInf) (VFloat f) ftol = Inr False"
  "abs_diff_lt (VBool c) (VFloat PInf) ftol = Inr False"
  "abs_diff_lt (VBool c) (VFloat NInf) ftol = Inr False"
  by (cases f; simp add: abs_diff_lt_def)+

lemma float_to_integer_eq:
  "float_to_integer L (VFinite x) force rnd ftol TyInt =
     (let candidate = (if rnd \<or> \<bar>of_int (round_half_even x) - x\<bar> < ftol
                       then round_half_even x else py_trunc x)
      in if force \<or> \<bar>of_int candidate - x\<bar> < ftol then Inr (VInt candidate)
         else Inl (ValueError ''could not convert float to int without losing information''
                     (VFinite x)))"
  by (simp add: float_to_integer_def bnd_def por_def py_trunc_of_int Let_def)

text \<open>
  On an infinite float \<open>float_to_integer\<close> raises \<open>OverflowError\<close> at \<open>int(rounded)\<close> or
  at \<open>int(element.real)\<close>, whatever \<open>round\<close>, \<open>force\<close> and the tolerance are.
\<close>

lemma float_to_integer_infinite:
  "float_to_integer L (VFloat PInf) force rnd ftol TyInt = Inl OverflowError"
  "float_to_integer L (VFloat NInf) force rnd ftol TyInt = Inl OverflowError"
  by (simp_all add: float_to_integer_def bnd_def por_def)

lemma float_to_integer_half_tolerance:
  fixes x ftol :: real
  assumes "0 < ftol" "frac x = ftol / 2"
  shows "float_to_integer L (VFinite x) False rnd ftol TyInt
           = Inr (VInt (round_half_even x))"
proof -
  have "\<bar>of_int (round_half_even x) - x\<bar> \<le> frac x"
    by (simp add: round_half_even_distance)
  with assms have "\<bar>of_int (round_half_even x) - x\<bar> < ftol" by linarith
  then show ?thesis by (simp add: float_to_integer_eq)
qed

lemma float_to_integer_twice_tolerance:
  fixes x ftol :: real
  assumes "ftol \<le> 1 / 3" "frac x = 2 * ftol"
  shows "float_to_integer L (VFinite x) False rnd ftol TyInt =
           Inl (ValueError ''could not convert float to int without losing information''
                  (VFinite x))"
proof -
  have "0 \<le> ftol" using frac_ge_0 [of x] assms by linarith
  have far: "\<not> \<bar>of_int k - x\<bar> < ftol" for k
    using int_distance_lower [of x k] assms \<open>0 \<le> ftol\<close>
    by (simp add: min_def split: if_splits)
  show ?thesis by (simp add: float_to_integer_eq far Let_def)
qed

text \<open>
  Claim C3, as stated, fails twice. For a tolerance above one third: the float 0.8 has
  the fractional part \<open>2 * ftol\<close> for \<open>ftol = 0.4\<close>, and \<open>float_to_integer(0.8, ftol=0.4)\<close>
  returns 1 without \<open>force\<close>, since the nearest integer is 0.2 away. For an infinite
  float, which is not missing: \<open>float_to_integer(inf, force=True)\<close> does not return its
  candidate but raises \<open>OverflowError\<close>.
\<close>

theorem float_to_integer_tolerance_counterexample:
  "frac (4 / 5 :: real) = 2 * (2 / 5)
   \<and> float_to_integer small_lib (VFinite (4 / 5)) False True (2 / 5) TyInt = Inr (VInt 1)
   \<and> \<not> isnull (VFloat PInf)
   \<and> float_to_integer small_lib (VFloat PInf) True True (1 / 10 ^ 6) TyInt
       = Inl OverflowError"
  by (simp add: float_to_integer_eq float_to_integer_infinite round_half_even_def Let_def
      frac_def)

text \<open>
  Claim C3, amended. For every finite float \<open>x\<close>, \<open>float_to_integer\<close> takes as candidate
  the nearest integer (no integer is nearer to \<open>x\<close>) when \<open>round\<close> is true or when that
  integer is less than \<open>ftol\<close> away, and the truncated value otherwise; it returns the
  candidate if \<open>force\<close> is set or the candidate is less than \<open>ftol\<close> away from \<open>x\<close>, and
  raises \<open>ValueError\<close> otherwise. On an infinite float it raises \<open>OverflowError\<close>, with or
  without \<open>force\<close>. Consequently, for a tolerance \<open>0 < ftol\<close> a float with fractional part
  \<open>ftol / 2\<close> converts without \<open>force\<close>, and for a tolerance \<open>ftol \<le> 1/3\<close> a float with
  fractional part \<open>2 * ftol\<close> fails without \<open>force\<close> and converts with it.
\<close>

theorem float_to_integer_policy:
  fixes x ftol :: real
  shows
  "float_to_integer L (VFinite x) force rnd ftol TyInt =
     (let candidate = (if rnd \<or> \<bar>of_int (round_half_even x) - x\<bar> < ftol
                       then round_half_even x else py_trunc x)
      in if force \<or> \<bar>of_int candidate - x\<bar> < ftol then Inr (VInt candidate)
         else Inl (ValueError ''could not convert float to int without losing information''
                     (VFinite x)))
   \<and> (\<forall>k. \<bar>of_int (round_half_even x) - x\<bar> \<le> \<bar>of_int k - x\<bar>)
   \<and> float_to_integer L (VFloat PInf) force rnd ftol TyInt = Inl OverflowError
   \<and> float_to_integer L (VFloat NInf) force rnd ftol TyInt = Inl OverflowError
   \<and> (0 < ftol \<and> frac x = ftol / 2 \<longrightarrow>
        float_to_integer L (VFinite x) False rnd ftol TyInt = Inr (VInt (round_half_even x)))
   \<and> (ftol \<le> 1 / 3 \<and> frac x = 2 * ftol \<longrightarrow>
        float_to_integer L (VFinite x) False rnd ftol TyInt =
          Inl (ValueError ''could not convert float to int without losing information''
                 (VFinite x))
        \<and> (\<exists>n. float_to_integer L (VFinite x) True rnd ftol TyInt = Inr (VInt n)))"
proof (intro conjI allI impI)
  show "float_to_integer L (VFinite x) force rnd ftol TyInt =
     (let candidate = (if rnd \<or> \<bar>of_int (round_half_even x) - x\<bar> < ftol
                       then round_half_even x else py_trunc x)
      in if force \<or> \<bar>of_int candidate - x\<bar> < ftol then Inr (VInt candidate)
         else Inl (ValueError ''could not convert float to int without losing information''
                     (VFinite x)))"
    by (rule float_to_integer_eq)
next
  fix k show "\<bar>of_int (round_half_even x) - x\<bar> \<le> \<bar>of_int k - x\<bar>"
    by (rule round_half_even_nearest)
next
  show "float_to_integer L (VFloat PInf) force rnd ftol TyInt = Inl OverflowError"
    by (rule float_to_integer_infinite)
next
  show "float_to_integer L (VFloat NInf) force rnd ftol TyInt = Inl OverflowError"
    by (rule float_to_integer_infinite)
next
  assume "0 < ftol \<and> frac x = ftol / 2"
  then show "float_to_integer L (VFinite x) False rnd ftol TyInt
               = Inr (VInt (round_half_even x))"
    by (simp add: float_to_integer_half_tolerance)
next
  assume "ftol \<le> 1 / 3 \<and> frac x = 2 * ftol"
  then show "float_to_integer L (VFinite x) False rnd ftol TyInt =
          Inl (ValueError ''could not convert float to int without losing information''
                 (VFinite x))"
    by (simp add: float_to_integer_twice_tolerance)
next
  show "\<exists>n. float_to_integer L (VFinite x) True rnd ftol TyInt = Inr (VInt n)"
    by (simp add: float_to_integer_eq Let_def)
qed

theorem float_to_integer_policy_witness:
  "(0 :: real) < 1 / 2 \<and> frac (5 / 4 :: real) = (1 / 2) / 2
   \<and> float_to_integer small_lib (VFinite (5 / 4)) False False (1 / 2) TyInt = Inr (VInt 1)
   \<and> (1 / 4 :: real) \<le> 1 / 3 \<and> frac (3 / 2 :: real) = 2 * (1 / 4)
   \<and> float_to_integer small_lib (VFinite (3 / 2)) False True (1 / 4) TyInt =
       Inl (ValueError ''could not convert float to int without losing information''
              (VFinite (3 / 2)))
   \<and> float_to_integer small_lib (VFinite (3 / 2)) True True (1 / 4) TyInt = Inr (VInt 2)
   \<and> float_to_integer small_lib (VFinite (3 / 2)) True False (1 / 4) TyInt = Inr (VInt 1)
   \<and> float_to_integer small_lib (VFloat NInf) True False (1 / 4) TyInt = Inl OverflowError"
  using float_to_integer_policy [of small_lib "5 / 4" False False "1 / 2"]
    float_to_integer_policy [of small_lib "3 / 2" False True "1 / 4"]
    float_to_integer_policy [of small_lib "3 / 2" True True "1 / 4"]
    float_to_integer_policy [of small_lib "3 / 2" True False "1 / 4"]
  by (simp add: round_half_even_def py_trunc_def Let_def frac_def)

subsection \<open>Forced conversions\<close>





lemma small_range_error [simp]: "range_error small_lib = small_range_error"
  by (simp add: small_lib_def small_parsers_def)















subsection \<open>Datetimes and durations\<close>






subsection \<open>The error boundary of the entry points\<close>

lemma boundary_reraise: "conversion_boundary msg element (reraise msg element r)"
  by (auto simp: conversion_boundary_def reraise_def split: sum.splits error.splits)

lemma boundary_global:
  "(\<And>f. conversion_boundary msg element (k f)) \<Longrightarrow>
   conversion_boundary msg element (bnd (global g n) k)"
  by (cases "g n") (simp_all add: global_def bnd_def conversion_boundary_def)

lemma boundary_parse_dtype:
  "(\<And>t. conversion_boundary msg element (k t)) \<Longrightarrow>
   conversion_boundary msg element (bnd (parse_dtype d) k)"
  by (simp add: parse_dtype_def bnd_def conversion_boundary_def)

lemma boundary_null: "conversion_boundary msg element (Inr v)"
  by (simp add: conversion_boundary_def)

lemma boundary_to_integer:
  "conversion_boundary ''could not convert element to int'' element
     (to_integer L g element rnd force ftol format rt)"
proof (cases "isnull element")
  case True
  then show ?thesis by (simp add: to_integer_def boundary_null)
next
  case False
  then show ?thesis
    unfolding to_integer_def Let_def
    by (simp only: if_False) (intro boundary_global boundary_parse_dtype boundary_reraise)
qed

lemma boundary_to_float:
  "conversion_boundary ''could not convert element to float'' element
     (to_float L g element force ftol format rt)"
proof (cases "isnull element")
  case True
  then show ?thesis by (simp add: to_float_def boundary_null)
next
  case False
  then show ?thesis
    unfolding to_float_def Let_def
    by (simp only: if_False) (intro boundary_global boundary_parse_dtype boundary_reraise)
qed

lemma boundary_to_complex:
  "conversion_boundary ''could not convert element to complex'' element
     (to_complex L g element format rt)"
proof (cases "isnull element")
  case True
  then show ?thesis by (simp add: to_complex_def boundary_null)
next
  case False
  then show ?thesis
    unfolding to_complex_def Let_def
    by (simp only: if_False) (intro boundary_global boundary_parse_dtype boundary_reraise)
qed

lemma boundary_to_boolean:
  "conversion_boundary ''could not convert element to bool'' element
     (to_boolean L g element force ftol format rt)"
proof (cases "isnull element")
  case True
  then show ?thesis by (simp add: to_boolean_def boundary_null)
next
  case False
  then show ?thesis
    unfolding to_boolean_def Let_def
    by (simp only: if_False) (intro boundary_global boundary_parse_dtype boundary_reraise)
qed

lemma boundary_to_string:
  "conversion_boundary ''could not convert element to string'' element
     (to_string L g element format rt)"
proof (cases "isnull element")
  case True
  then show ?thesis by (simp add: to_string_def boundary_null)
next
  case False
  then show ?thesis
    unfolding to_string_def Let_def
    by (simp only: if_False) (intro boundary_global boundary_parse_dtype boundary_reraise)
qed

lemma boundary_to_datetime:
  "conversion_boundary ''could not convert element to datetime'' element
     (to_datetime L g element force ftol format rt)"
proof (cases "isnull element")
  case True
  then show ?thesis by (simp add: to_datetime_def boundary_null)
next
  case False
  then show ?thesis
    unfolding to_datetime_def Let_def
    by (simp only: if_False) (intro boundary_global boundary_parse_dtype boundary_reraise)
qed

lemma boundary_to_timedelta:
  "conversion_boundary ''could not convert element to timedelta'' element
     (to_timedelta L g element force ftol rt)"
proof (cases "isnull element")
  case True
  then show ?thesis by (simp add: to_timedelta_def boundary_null)
next
  case False
  then show ?thesis
    unfolding to_timedelta_def Let_def
    by (simp only: if_False) (intro boundary_global boundary_parse_dtype boundary_reraise)
qed

lemma reraise_cases:
  "reraise msg element (Inl KeyError) = Inl (ValueError msg element)"
  "reraise msg element (Inl (ValueError m v)) = Inl (ValueError msg element)"
  "\<not> is_key_or_value_error e \<Longrightarrow> reraise msg element (Inl e) = Inl e"
  "reraise msg element (Inr r) = Inr r"
  by (cases e; simp add: reraise_def)+

lemma unrecognized_type_passes:
  assumes "list_all (\<lambda>n. g n \<noteq> None)
     [''_integer_to_float'', ''_complex_to_float'', ''_string_to_float'',
      ''_boolean_to_float'', ''_datetime_to_float'', ''_timedelta_to_float'']"
  shows "to_float L g (VVoid k) force ftol format rt = Inl (TypeError ''unrecognized dtype'')"
  using assms
  by (auto simp add: to_float_def global_def bnd_def parse_dtype_def no_tests_def)

text \<open>The names of the maps in the module with the underscored names bound.\<close>

lemma aliased_integer_names:
  "global (aliased_module L) ''_float_to_integer''
     = Inr (def_force_round_ftol_rt TyInt (float_to_integer L))"
  "global (aliased_module L) ''_complex_to_integer''
     = Inr (def_round_force_ftol_rt TyInt (complex_to_integer L))"
  "global (aliased_module L) ''_string_to_integer''
     = Inr (def_round_force_ftol_format_rt TyInt (string_to_integer L (aliased_rules L)))"
  "global (aliased_module L) ''_boolean_to_integer'' = Inr (def_rt TyInt (boolean_to_integer L))"
  "global (aliased_module L) ''_datetime_to_integer''
     = Inr (def_round_force_ftol_rt TyInt (datetime_to_integer L))"
  "global (aliased_module L) ''_timedelta_to_integer''
     = Inr (def_round_force_ftol_rt TyInt (timedelta_to_integer L))"
  by (simp_all add: aliased_module_def aliased_rules_def apply_rules_def global_def)

lemma aliased_float_names:
  "global (aliased_module L) ''_integer_to_float'' = Inr (def_rt TyFloat (integer_to_float L))"
  "global (aliased_module L) ''_complex_to_float''
     = Inr (def_force_ftol_rt TyFloat (complex_to_float L))"
  "global (aliased_module L) ''_string_to_float''
     = Inr (def_force_ftol_format_rt TyFloat (string_to_float L (aliased_rules L)))"
  "global (aliased_module L) ''_boolean_to_float'' = Inr (def_rt TyFloat (boolean_to_float L))"
  "global (aliased_module L) ''_datetime_to_float'' = Inr (def_rt TyFloat (datetime_to_float L))"
  "global (aliased_module L) ''_timedelta_to_float''
     = Inr (def_rt TyFloat (timedelta_to_float L))"
  by (simp_all add: aliased_module_def aliased_rules_def apply_rules_def global_def)

lemma aliased_complex_names:
  "global (aliased_module L) ''_integer_to_complex''
     = Inr (def_rt TyComplex (integer_to_complex L))"
  "global (aliased_module L) ''_float_to_complex'' = Inr (def_rt TyComplex (float_to_complex L))"
  "global (aliased_module L) ''_string_to_complex''
     = Inr (def_format_rt TyFloat (string_to_complex L (aliased_rules L)))"
  "global (aliased_module L) ''_boolean_to_complex''
     = Inr (def_rt TyComplex (boolean_to_complex L))"
  "global (aliased_module L) ''_datetime_to_complex''
     = Inr (def_rt TyComplex (datetime_to_complex L))"
  "global (aliased_module L) ''_timedelta_to_complex''
     = Inr (def_rt TyComplex (timedelta_to_complex L))"
  by (simp_all add: aliased_module_def aliased_rules_def apply_rules_def global_def)

lemma aliased_boolean_names:
  "global (aliased_module L) ''_integer_to_boolean''
     = Inr (def_force_rt TyBool (integer_to_boolean L))"
  "global (aliased_module L) ''_float_to_boolean''
     = Inr (def_force_ftol_rt TyBool (float_to_boolean L))"
  "global (aliased_module L) ''_complex_to_boolean''
     = Inr (def_force_ftol_rt TyBool (complex_to_boolean L))"
  "global (aliased_module L) ''_string_to_boolean''
     = Inr (def_force_ftol_format_rt TyBool (string_to_boolean L (aliased_rules L)))"
  "global (aliased_module L) ''_datetime_to_boolean''
     = Inr (def_force_ftol_rt TyBool (datetime_to_boolean L))"
  "global (aliased_module L) ''_timedelta_to_boolean''
     = Inr (def_force_ftol_rt TyBool (timedelta_to_boolean L))"
  by (simp_all add: aliased_module_def aliased_rules_def apply_rules_def global_def)

lemma aliased_string_names:
  "global (aliased_module L) ''_integer_to_string'' = Inr (def_rt TyStr (integer_to_string L))"
  "global (aliased_module L) ''_float_to_string'' = Inr (def_rt TyStr (float_to_string L))"
  "global (aliased_module L) ''_complex_to_string'' = Inr (def_rt TyStr (complex_to_string L))"
  "global (aliased_module L) ''_boolean_to_string'' = Inr (def_rt TyStr (boolean_to_string L))"
  "global (aliased_module L) ''_datetime_to_string''
     = Inr (def_format_rt TyStr (datetime_to_string L))"
  "global (aliased_module L) ''_timedelta_to_string''
     = Inr (def_rt TyStr (timedelta_to_string L))"
  by (simp_all add: aliased_module_def aliased_rules_def apply_rules_def global_def)

lemma aliased_datetime_names:
  "global (aliased_module L) ''_integer_to_datetime''
     = Inr (def_rt TyTimestamp (integer_to_datetime L))"
  "global (aliased_module L) ''_float_to_datetime''
     = Inr (def_rt TyTimestamp (float_to_datetime L))"
  "global (aliased_module L) ''_complex_to_datetime''
     = Inr (def_force_ftol_rt TyTimestamp (complex_to_datetime L))"
  "global (aliased_module L) ''_string_to_datetime''
     = Inr (def_force_ftol_format_rt TyTimestamp (string_to_datetime L (aliased_rules L)))"
  "global (aliased_module L) ''_boolean_to_datetime''
     = Inr (def_rt TyTimestamp (boolean_to_datetime L))"
  "global (aliased_module L) ''_timedelta_to_datetime''
     = Inr (def_rt TyTimestamp (timedelta_to_datetime L))"
  by (simp_all add: aliased_module_def aliased_rules_def apply_rules_def global_def)

lemma aliased_timedelta_names:
  "global (aliased_module L) ''_integer_to_timedelta''
     = Inr (def_rt TyPdTimedelta (integer_to_timedelta L))"
  "global (aliased_module L) ''_float_to_timedelta''
     = Inr (def_rt TyPdTimedelta (float_to_timedelta L))"
  "global (aliased_module L) ''_complex_to_timedelta''
     = Inr (def_force_ftol_rt TyPdTimedelta (complex_to_timedelta L))"
  "global (aliased_module L) ''_string_to_timedelta''
     = Inr (def_force_format_rt TyPdTimedelta (string_to_timedelta L (aliased_rules L)))"
  "global (aliased_module L) ''_boolean_to_timedelta''
     = Inr (def_rt TyPdTimedelta (boolean_to_timedelta L))"
  "global (aliased_module L) ''_datetime_to_timedelta''
     = Inr (def_rt TyPdTimedelta (datetime_to_timedelta L))"
  by (simp_all add: aliased_module_def aliased_rules_def apply_rules_def global_def)

lemmas aliased_names = aliased_integer_names aliased_float_names aliased_complex_names
  aliased_boolean_names aliased_string_names aliased_datetime_names aliased_timedelta_names

lemmas call_defs = bnd_def parse_dtype_def no_tests_def subscript_call_def reraise_def
  accepts_def passed_def kwds_def arg_def unexpected_keyword_def

text \<open>
  Claim C4 says that every failure inside an entry point reaches the caller as the one
  conversion error that carries the original value and names the target kind. The
  handlers \<^verbatim>\<open>except (KeyError, ValueError)\<close> that would do so are never reached in the
  module as written: \<open>to_float("abc")\<close> and \<open>to_float(1)\<close> raise \<open>NameError\<close> for
  \<open>_integer_to_float\<close> while the conversion map is built, the other six entry points
  raise the \<open>NameError\<close> of their own map on the same string, and the rule
  \<open>_string_to_timedelta\<close> raises it for \<open>_integer_to_timedelta\<close>; a \<open>NameError\<close> is none
  of the two classes the handlers catch.
\<close>

theorem conversion_error_name_error:
  "to_float L (apply_module L) (VStr ''abc'') force ftol format rt2
     = Inl (NameError ''_integer_to_float'')
   \<and> to_float L (apply_module L) (VStr ''abc'') force ftol format rt2
     \<noteq> Inl (ValueError ''could not convert element to float'' (VStr ''abc''))
   \<and> to_float L (apply_module L) (VInt 1) force ftol format rt2
     = Inl (NameError ''_integer_to_float'')
   \<and> to_integer L (apply_module L) (VStr ''abc'') rnd force ftol format rt1
     = Inl (NameError ''_float_to_integer'')
   \<and> to_complex L (apply_module L) (VStr ''abc'') format rt3
     = Inl (NameError ''_integer_to_complex'')
   \<and> to_boolean L (apply_module L) (VStr ''abc'') force ftol format rt4
     = Inl (NameError ''_integer_to_boolean'')
   \<and> to_string L (apply_module L) (VStr ''abc'') format rt5
     = Inl (NameError ''_integer_to_string'')
   \<and> to_datetime L (apply_module L) (VStr ''abc'') force ftol format rt6
     = Inl (NameError ''_integer_to_datetime'')
   \<and> to_timedelta L (apply_module L) (VStr ''abc'') force ftol rt7
     = Inl (NameError ''_integer_to_timedelta'')
   \<and> string_to_timedelta L (apply_rules L) (VStr ''1 day'') force format rt7
     = Inl (NameError ''_integer_to_timedelta'')
   \<and> \<not> is_key_or_value_error (NameError ''_integer_to_float'')
   \<and> reraise ''could not convert element to float'' (VStr ''abc'')
         (Inl (NameError ''_integer_to_float'')) = Inl (NameError ''_integer_to_float'')"
  by (simp add: entry_points_name_error string_rules_name_error reraise_def)

subsection \<open>The string inferencer\<close>

lemma try_parse_accept: "try_parse caught (Inr v) otherwise = Inr v"
  by (simp add: try_parse_def)

lemma try_parse_reject:
  "rejected caught attempt \<Longrightarrow> try_parse caught attempt otherwise = otherwise"
  by (cases attempt) (simp_all add: try_parse_def rejected_def)

text \<open>
  Claim C5. \<open>parse_string\<close> tries the parses in the order integer, float, complex,
  duration, datetime: the first that accepts the string gives the result, an earlier one
  having been rejected with an exception its handler catches. When all five reject it,
  the string stripped of surrounding white space and lower-cased is compared with the
  tokens: \<open>t\<close> and \<open>true\<close> give \<open>True\<close>, \<open>f\<close> and \<open>false\<close> give \<open>False\<close>, and every
  other string is returned unchanged. In particular \<open>"10"\<close> gives the integer 10 that
  \<open>int\<close> reads, \<open>"true"\<close> (also \<open>" TRUE "\<close>) gives \<open>True\<close>, \<open>"1 day, 0:00:10"\<close> gives
  the duration of 86410 seconds that \<open>pd.to_timedelta\<close> reads, and \<open>"abc"\<close> is kept. The
  five parsers are those of Python and pandas, taken as parameters.
\<close>

theorem parse_string_cascade:
  "(int_of_str L s = Inr v \<longrightarrow> parse_string L s = Inr v)
   \<and> (rejected is_type_or_value_error (int_of_str L s) \<and> float_of_str L s = Inr v \<longrightarrow>
        parse_string L s = Inr v)
   \<and> (rejected is_type_or_value_error (int_of_str L s)
        \<and> rejected is_type_or_value_error (float_of_str L s)
        \<and> complex_of_str L s = Inr v \<longrightarrow> parse_string L s = Inr v)
   \<and> (rejected is_type_or_value_error (int_of_str L s)
        \<and> rejected is_type_or_value_error (float_of_str L s)
        \<and> rejected is_type_or_value_error (complex_of_str L s)
        \<and> pd_to_timedelta L s = Inr v \<longrightarrow> parse_string L s = Inr v)
   \<and> (rejected is_type_or_value_error (int_of_str L s)
        \<and> rejected is_type_or_value_error (float_of_str L s)
        \<and> rejected is_type_or_value_error (complex_of_str L s)
        \<and> rejected is_value_error (pd_to_timedelta L s)
        \<and> pd_to_datetime L s = Inr v \<longrightarrow> parse_string L s = Inr v)
   \<and> (all_rejected L s \<longrightarrow>
        parse_string L s =
          Inr (if lower (strip s) = ''t'' \<or> lower (strip s) = ''true'' then VBool True
               else if lower (strip s) = ''f'' \<or> lower (strip s) = ''false''
               then VBool False else VStr s))
   \<and> (int_of_str L ''10'' = Inr (VInt 10) \<longrightarrow> parse_string L ''10'' = Inr (VInt 10))
   \<and> (all_rejected L ''true'' \<longrightarrow> parse_string L ''true'' = Inr (VBool True))
   \<and> (all_rejected L '' TRUE '' \<longrightarrow> parse_string L '' TRUE '' = Inr (VBool True))
   \<and> (all_rejected L ''F'' \<longrightarrow> parse_string L ''F'' = Inr (VBool False))
   \<and> (rejected is_type_or_value_error (int_of_str L ''1 day, 0:00:10'')
        \<and> rejected is_type_or_value_error (float_of_str L ''1 day, 0:00:10'')
        \<and> rejected is_type_or_value_error (complex_of_str L ''1 day, 0:00:10'')
        \<and> pd_to_timedelta L ''1 day, 0:00:10'' = Inr (VTimedelta TyPdTimedelta 86410) \<longrightarrow>
        parse_string L ''1 day, 0:00:10'' = Inr (VTimedelta TyPdTimedelta 86410))
   \<and> (all_rejected L ''abc'' \<longrightarrow> parse_string L ''abc'' = Inr (VStr ''abc''))"
  by (auto simp add: parse_string_def try_parse_accept try_parse_reject all_rejected_def
      Let_def lower_def lower_char_def strip_def py_isspace_def char_of_def bit_0)

lemmas small_lib_defs = small_lib_def small_parsers_def small_int_of_str_def small_float_of_str_def
  signed_literal_def unsigned_literal_def small_to_timedelta_def small_complex_of_str_def
  small_to_datetime_def digit_of_def
  strip_def py_isspace_def rejected_def all_rejected_def Let_def

theorem parse_string_cascade_witness:
  "int_of_str small_lib ''10'' = Inr (VInt 10)
   \<and> parse_string small_lib ''10'' = Inr (VInt 10)
   \<and> rejected is_type_or_value_error (int_of_str small_lib ''1.5'')
   \<and> float_of_str small_lib ''1.5'' = Inr (VFinite (3 / 2))
   \<and> parse_string small_lib ''1.5'' = Inr (VFinite (3 / 2))
   \<and> all_rejected small_lib ''true''
   \<and> parse_string small_lib ''true'' = Inr (VBool True)
   \<and> all_rejected small_lib '' TRUE ''
   \<and> parse_string small_lib '' TRUE '' = Inr (VBool True)
   \<and> all_rejected small_lib ''F''
   \<and> parse_string small_lib ''F'' = Inr (VBool False)
   \<and> rejected is_type_or_value_error (complex_of_str small_lib ''1 day, 0:00:10'')
   \<and> pd_to_timedelta small_lib ''1 day, 0:00:10'' = Inr (VTimedelta TyPdTimedelta 86410)
   \<and> parse_string small_lib ''1 day, 0:00:10'' = Inr (VTimedelta TyPdTimedelta 86410)
   \<and> all_rejected small_lib ''abc''
   \<and> parse_string small_lib ''abc'' = Inr (VStr ''abc'')
   \<and> rejected is_type_or_value_error (float_of_str small_lib ''(1+0j)'')
   \<and> complex_of_str small_lib ''(1+0j)'' = Inr (VComplex (Fin 1) (Fin 0))
   \<and> parse_string small_lib ''(1+0j)'' = Inr (VComplex (Fin 1) (Fin 0))
   \<and> rejected is_value_error (pd_to_timedelta small_lib ''1970-01-01 00:00:00+00:00'')
   \<and> pd_to_datetime small_lib ''1970-01-01 00:00:00+00:00''
       = Inr (VDatetime TyTimestamp 0 (Some 0))
   \<and> parse_string small_lib ''1970-01-01 00:00:00+00:00''
       = Inr (VDatetime TyTimestamp 0 (Some 0))"
proof -
  have facts:
    "int_of_str small_lib ''10'' = Inr (VInt 10)"
    "rejected is_type_or_value_error (int_of_str small_lib ''1.5'')"
    "float_of_str small_lib ''1.5'' = Inr (VFinite (3 / 2))"
    "all_rejected small_lib ''true''"
    "all_rejected small_lib '' TRUE ''"
    "all_rejected small_lib ''F''"
    "rejected is_type_or_value_error (int_of_str small_lib ''1 day, 0:00:10'')"
    "rejected is_type_or_value_error (float_of_str small_lib ''1 day, 0:00:10'')"
    "rejected is_type_or_value_error (complex_of_str small_lib ''1 day, 0:00:10'')"
    "pd_to_timedelta small_lib ''1 day, 0:00:10'' = Inr (VTimedelta TyPdTimedelta 86410)"
    "all_rejected small_lib ''abc''"
    "rejected is_type_or_value_error (int_of_str small_lib ''(1+0j)'')"
    "rejected is_type_or_value_error (float_of_str small_lib ''(1+0j)'')"
    "complex_of_str small_lib ''(1+0j)'' = Inr (VComplex (Fin 1) (Fin 0))"
    "rejected is_type_or_value_error (int_of_str small_lib ''1970-01-01 00:00:00+00:00'')"
    "rejected is_type_or_value_error (float_of_str small_lib ''1970-01-01 00:00:00+00:00'')"
    "rejected is_type_or_value_error
       (complex_of_str small_lib ''1970-01-01 00:00:00+00:00'')"
    "rejected is_value_error (pd_to_timedelta small_lib ''1970-01-01 00:00:00+00:00'')"
    "pd_to_datetime small_lib ''1970-01-01 00:00:00+00:00''
       = Inr (VDatetime TyTimestamp 0 (Some 0))"
    by (simp_all add: small_lib_defs)
  show ?thesis
    using facts
      parse_string_cascade [of small_lib "''10''" "VInt 10"]
      parse_string_cascade [of small_lib "''1.5''" "VFinite (3 / 2)"]
      parse_string_cascade [of small_lib "''(1+0j)''" "VComplex (Fin 1) (Fin 0)"]
      parse_string_cascade [of small_lib "''1970-01-01 00:00:00+00:00''"
        "VDatetime TyTimestamp 0 (Some 0)"]
    by simp
qed

subsection \<open>The maps with their names bound\<close>

lemma round_half_even_of_int: "round_half_even (of_int n) = n"
  by (simp add: round_half_even_def)

text \<open>
  With the nine names bound, the round trip of claim C7 holds for every integer that a
  float holds and every positive tolerance: \<open>to_float\<close> gives the float of \<open>n\<close>, and
  \<open>to_integer\<close> gives \<open>n\<close> back.
\<close>

lemma round_trip_aliased:
  assumes "0 < ftol" and "\<not> float_overflows n"
  shows "to_float L (aliased_module L) (VInt n) False ftol None TyFloat
           = Inr (VFinite (of_int n))"
    and "to_integer L (aliased_module L) (VFinite (of_int n)) False False ftol None TyInt
           = Inr (VInt n)"
    and "bnd (to_float L (aliased_module L) (VInt n) False ftol None TyFloat) (\<lambda>a.
           bnd (to_integer L (aliased_module L) a False False ftol None TyInt)
             (\<lambda>b. to_float L (aliased_module L) b False ftol None TyFloat))
         = Inr (VFinite (of_int n))"
  using assms
  by (simp_all add: to_float_def to_integer_def aliased_names call_defs def_rt_def
      def_force_round_ftol_rt_def integer_to_float_def float_to_integer_eq
      round_half_even_of_int)

text \<open>
  With the names bound, the maps treat an input classified as \<open>object\<close> as claim C10
  says: \<open>to_datetime\<close> and \<open>to_timedelta\<close> have no entry for it and raise the conversion
  error, the other five call the native constructor of the target inside the handler.
\<close>

lemma object_input_aliased:
  "to_datetime L (aliased_module L) (VObject k) force ftol format rt
     = Inl (ValueError ''could not convert element to datetime'' (VObject k))"
  "to_timedelta L (aliased_module L) (VObject k) force ftol rt
     = Inl (ValueError ''could not convert element to timedelta'' (VObject k))"
  "to_integer L (aliased_module L) (VObject k) rnd force ftol format rt
     = reraise ''could not convert element to int'' (VObject k)
         (bnd (py_int L (VObject k)) (construct L rt))"
  "to_float L (aliased_module L) (VObject k) force ftol format rt
     = reraise ''could not convert element to float'' (VObject k)
         (bnd (py_float L (VObject k)) (construct L rt))"
  "to_complex L (aliased_module L) (VObject k) format rt
     = reraise ''could not convert element to complex'' (VObject k)
         (bnd (py_complex L (VObject k)) (construct L rt))"
  "to_boolean L (aliased_module L) (VObject k) force ftol format rt
     = reraise ''could not convert element to bool'' (VObject k)
         (bnd (py_bool L (VObject k)) (construct L rt))"
  "to_string L (aliased_module L) (VObject k) format rt
     = reraise ''could not convert element to string'' (VObject k)
         (construct L rt (VStr (str_of L (VObject k))))"
  by (simp_all add: to_datetime_def to_timedelta_def to_integer_def to_float_def to_complex_def
      to_boolean_def to_string_def aliased_names bnd_def parse_dtype_def no_tests_def
      subscript_call_def reraise_cases)

text \<open>
  With the names bound, the handler of claim C4 is reached: the \<open>ValueError\<close> that
  \<open>_complex_to_float\<close> raises for \<open>1j\<close> leaves \<open>to_float\<close> as the conversion error with
  the original value. An input whose storage type no predicate recognises still leaves
  it with the \<open>TypeError\<close> of \<open>parse_dtype\<close>, which is called outside the \<^verbatim>\<open>try\<close>.
\<close>

lemma conversion_error_aliased:
  "to_float L (aliased_module L) (VComplex (Fin 0) (Fin 1)) False (1 / 10 ^ 6) None TyFloat
     = Inl (ValueError ''could not convert element to float'' (VComplex (Fin 0) (Fin 1)))"
  "to_float L (aliased_module L) (VVoid k) force ftol format rt
     = Inl (TypeError ''unrecognized dtype'')"
  by (simp_all add: to_float_def aliased_float_names call_defs def_force_ftol_rt_def
      complex_to_float_def por_def)

end
